theory Spec2Isabelle
  imports Complex_Main "HOL-Library.Word"
begin

section \<open>Values of the client's language\<close>

text \<open>
  The catalog client is TypeScript. A string of the client is a sequence of 16-bit code
  units and its \<^verbatim>\<open>length\<close> counts code units, so a string is a list of
  16-bit words. \<open>lit\<close> writes the string of an ASCII literal of the source.
\<close>

type_synonym code_unit = "16 word"
type_synonym jsstring = "code_unit list"

definition lit :: "string \<Rightarrow> jsstring" where
  "lit s = map (\<lambda>c. of_nat (of_char c)) s"

text \<open>Strings put one after the other with a separator between them.\<close>

fun join :: "jsstring \<Rightarrow> jsstring list \<Rightarrow> jsstring" where
  "join sep [] = []"
| "join sep [x] = x"
| "join sep (x # y # ys) = x @ sep @ join sep (y # ys)"

text \<open>
  A \<^verbatim>\<open>number\<close> is a finite value, NaN or an infinity. Finite values are
  rationals: every property below that holds of all rationals holds of the doubles among
  them, and the integers the claims speak of (years, ratings, limits) are exact doubles.
\<close>

datatype number = Finite rat | NaN | PosInfinity | NegInfinity

definition num :: "int \<Rightarrow> number" where
  "num i = Finite (of_int i)"

fun isInteger :: "number \<Rightarrow> bool" where
  "isInteger (Finite q) = (of_int \<lfloor>q\<rfloor> = q)"
| "isInteger _ = False"

text \<open>\<^verbatim>\<open>a >= b\<close> and \<^verbatim>\<open>a <= b\<close> on numbers: false whenever NaN is involved.\<close>

fun num_ge :: "number \<Rightarrow> number \<Rightarrow> bool" where
  "num_ge NaN _ = False"
| "num_ge _ NaN = False"
| "num_ge PosInfinity _ = True"
| "num_ge _ NegInfinity = True"
| "num_ge NegInfinity _ = False"
| "num_ge _ PosInfinity = False"
| "num_ge (Finite a) (Finite b) = (b \<le> a)"

definition num_le :: "number \<Rightarrow> number \<Rightarrow> bool" where
  "num_le a b = num_ge b a"

text \<open>\<^verbatim>\<open>a - b\<close>; on finite values the exact difference.\<close>

fun num_sub :: "number \<Rightarrow> number \<Rightarrow> number" where
  "num_sub NaN _ = NaN"
| "num_sub _ NaN = NaN"
| "num_sub PosInfinity PosInfinity = NaN"
| "num_sub NegInfinity NegInfinity = NaN"
| "num_sub PosInfinity _ = PosInfinity"
| "num_sub NegInfinity _ = NegInfinity"
| "num_sub (Finite _) PosInfinity = NegInfinity"
| "num_sub (Finite _) NegInfinity = PosInfinity"
| "num_sub (Finite a) (Finite b) = Finite (a - b)"

text \<open>What a failing call throws.\<close>

datatype exn = RangeError | TypeError | SyntaxError | Error jsstring

section \<open>MovieCard: the star rating\<close>

text \<open>
  \<^verbatim>\<open>String.prototype.repeat(count)\<close>: the count is converted to an integer by
  truncation (NaN counts as 0); a negative or infinite count throws RangeError.
\<close>

fun repeat :: "jsstring \<Rightarrow> number \<Rightarrow> exn + jsstring" where
  "repeat s NaN = Inr []"
| "repeat s PosInfinity = Inl RangeError"
| "repeat s NegInfinity = Inl RangeError"
| "repeat s (Finite q) =
     (let n = (if 0 \<le> q then \<lfloor>q\<rfloor> else \<lceil>q\<rceil>)
      in if n < 0 then Inl RangeError else Inr (concat (replicate (nat n) s)))"

text \<open>The glyph \<^verbatim>\<open>"\u2605"\<close>, one code unit.\<close>

definition star :: jsstring where
  "star = [0x2605]"

text \<open>
  The two spans of MovieCard:
  \<^verbatim>\<open><span className="text-yellow-500">{"\u2605".repeat(movie.rating)}</span>\<close> and
  \<^verbatim>\<open><span className="text-gray-300">{"\u2605".repeat(5 - movie.rating)}</span>\<close>.
  Rendering fails when either call throws.
\<close>

definition MovieCard_stars :: "number \<Rightarrow> exn + (jsstring \<times> jsstring)" where
  "MovieCard_stars rating =
     (case repeat star rating of
        Inl e \<Rightarrow> Inl e
      | Inr filled \<Rightarrow>
          (case repeat star (num_sub (num 5) rating) of
             Inl e \<Rightarrow> Inl e
           | Inr unfilled \<Rightarrow> Inr (filled, unfilled)))"

section \<open>MovieFormPage: the selected actors\<close>

record Person =
  firstName :: jsstring
  lastName :: jsstring

text \<open>
  The part of the form's state that \<^verbatim>\<open>addActor\<close> and \<^verbatim>\<open>removeActor\<close>
  read and write: the state variables and the form's own \<^verbatim>\<open>actors\<close> value.
\<close>

record actor_state =
  selectedActors :: "Person list"
  form_actors :: "Person list option"
  actorSearch :: jsstring
  showActorResults :: bool

definition same_person :: "Person \<Rightarrow> Person \<Rightarrow> bool" where
  "same_person a actor \<longleftrightarrow> firstName a = firstName actor \<and> lastName a = lastName actor"

definition addActor :: "Person \<Rightarrow> actor_state \<Rightarrow> actor_state" where
  "addActor actor st =
     (let exists = list_ex (\<lambda>a. same_person a actor) (selectedActors st);
          st1 = (if \<not> exists
                 then (let newActors = selectedActors st @ [actor]
                       in st\<lparr>selectedActors := newActors, form_actors := Some newActors\<rparr>)
                 else st)
      in st1\<lparr>actorSearch := [], showActorResults := False\<rparr>)"

definition removeActor :: "Person \<Rightarrow> actor_state \<Rightarrow> actor_state" where
  "removeActor actor st =
     (let newActors = filter (\<lambda>a. \<not> same_person a actor) (selectedActors st)
      in st\<lparr>selectedActors := newActors, form_actors := Some newActors\<rparr>)"

text \<open>The invariant is stated on the pairs that identify a person.\<close>

definition actor_keys :: "actor_state \<Rightarrow> (jsstring \<times> jsstring) list" where
  "actor_keys st = map (\<lambda>a. (firstName a, lastName a)) (selectedActors st)"

datatype actor_call = AddActor Person | RemoveActor Person

fun actor_step :: "actor_state \<Rightarrow> actor_call \<Rightarrow> actor_state" where
  "actor_step st (AddActor p) = addActor p st"
| "actor_step st (RemoveActor p) = removeActor p st"

definition actor_calls :: "actor_call list \<Rightarrow> actor_state \<Rightarrow> actor_state" where
  "actor_calls cs st = foldl actor_step st cs"

section \<open>schemas.ts: the validation schemas\<close>

text \<open>The type \<^verbatim>\<open>MovieCreate\<close>; an optional field is absent as \<open>None\<close>.\<close>

record MovieCreate =
  name :: jsstring
  year :: number
  age_limit :: number
  rating :: number
  synopsis :: "jsstring option"
  genres :: "jsstring list"
  actors :: "Person list option"
  director :: "Person option"

text \<open>
  A schema maps the place of a value in the body and the value to the issues it raises;
  the value is accepted when there is none. The schema combinators are those the source
  uses: \<^verbatim>\<open>min\<close> and \<^verbatim>\<open>max\<close> on a string or an array bound its length,
  \<^verbatim>\<open>z.number()\<close> refuses NaN before any further check, \<^verbatim>\<open>int\<close> asks for an
  integer (and reports any other number as of an invalid type), \<^verbatim>\<open>min\<close> and
  \<^verbatim>\<open>max\<close> on a number are inclusive bounds, \<^verbatim>\<open>optional\<close> lets the value be
  absent.
\<close>

datatype path_elem = Key string | Index nat

datatype issue_code = invalid_type | too_small | too_big

type_synonym issue = "path_elem list \<times> issue_code"

type_synonym 'a schema = "path_elem list \<Rightarrow> 'a \<Rightarrow> issue list"

definition z_checks :: "'a schema list \<Rightarrow> 'a schema" where
  "z_checks cs p x = concat (map (\<lambda>c. c p x) cs)"

definition min_length :: "nat \<Rightarrow> 'a list schema" where
  "min_length n p xs = (if length xs < n then [(p, too_small)] else [])"

definition max_length :: "nat \<Rightarrow> 'a list schema" where
  "max_length n p xs = (if length xs > n then [(p, too_big)] else [])"

definition z_string :: "jsstring schema list \<Rightarrow> jsstring schema" where
  "z_string cs = z_checks cs"

definition z_int :: "number schema" where
  "z_int p x = (if isInteger x then [] else [(p, invalid_type)])"

definition z_min :: "int \<Rightarrow> number schema" where
  "z_min m p x = (if num_ge x (num m) then [] else [(p, too_small)])"

definition z_max :: "int \<Rightarrow> number schema" where
  "z_max m p x = (if num_le x (num m) then [] else [(p, too_big)])"

definition z_number :: "number schema list \<Rightarrow> number schema" where
  "z_number cs p x = (if x = NaN then [(p, invalid_type)] else z_checks cs p x)"

definition z_array :: "'a schema \<Rightarrow> 'a list schema list \<Rightarrow> 'a list schema" where
  "z_array elem cs p xs =
     z_checks cs p xs @ concat (map (\<lambda>(i, x). elem (p @ [Index i]) x) (enumerate 0 xs))"

definition z_optional :: "'a schema \<Rightarrow> 'a option schema" where
  "z_optional s p v = (case v of None \<Rightarrow> [] | Some x \<Rightarrow> s p x)"

text \<open>
  \<^verbatim>\<open>personSchema = z.object({ firstName: z.string().min(1).max(100),
  lastName: z.string().min(1).max(100) })\<close>
\<close>

definition personSchema :: "Person schema" where
  "personSchema p person =
     z_string [min_length 1, max_length 100] (p @ [Key ''firstName'']) (firstName person) @
     z_string [min_length 1, max_length 100] (p @ [Key ''lastName'']) (lastName person)"

text \<open>
  \<^verbatim>\<open>movieCreateSchema\<close>, field by field as the object schema lists them. (An earlier
  revision of the file, kept beside it, has no actors and no director and bounds the year
  by 1800 and 2100 and the rating by 1 and 5; the form page that submits actors and a
  director uses the one below.)
\<close>

definition movieCreateSchema :: "MovieCreate schema" where
  "movieCreateSchema p b =
     z_string [min_length 1, max_length 255] (p @ [Key ''name'']) (name b) @
     z_number [z_int, z_min 1895, z_max 3000] (p @ [Key ''year'']) (year b) @
     z_number [z_int, z_min 0, z_max 18] (p @ [Key ''age_limit'']) (age_limit b) @
     z_number [z_int, z_min 0, z_max 5] (p @ [Key ''rating'']) (rating b) @
     z_optional (z_string []) (p @ [Key ''synopsis'']) (synopsis b) @
     z_array (z_string []) [min_length 1] (p @ [Key ''genres'']) (genres b) @
     z_optional (z_array personSchema []) (p @ [Key ''actors'']) (actors b) @
     z_optional personSchema (p @ [Key ''director'']) (director b)"

text \<open>\<^verbatim>\<open>schema.safeParse(data)\<close>: the data, or the issues.\<close>

definition safeParse :: "'a schema \<Rightarrow> 'a \<Rightarrow> issue list + 'a" where
  "safeParse s x = (case s [] x of [] \<Rightarrow> Inr x | i # is \<Rightarrow> Inl (i # is))"

definition accepts :: "'a schema \<Rightarrow> 'a \<Rightarrow> bool" where
  "accepts s x = (case safeParse s x of Inr _ \<Rightarrow> True | Inl _ \<Rightarrow> False)"

text \<open>
  The validation rules in the words of the specification, to compare the schema with: a
  string that is non-empty and at most \<open>n\<close> code units long, a number that is an integer
  within an interval, a person whose two names are non-empty and at most 100 long.
\<close>

definition nonempty_upto :: "nat \<Rightarrow> jsstring \<Rightarrow> bool" where
  "nonempty_upto n s \<longleftrightarrow> s \<noteq> [] \<and> length s \<le> n"

definition integer_within :: "int \<Rightarrow> int \<Rightarrow> number \<Rightarrow> bool" where
  "integer_within lo hi x =
     (case x of Finite q \<Rightarrow> q \<in> \<int> \<and> of_int lo \<le> q \<and> q \<le> of_int hi | _ \<Rightarrow> False)"

definition person_rule :: "Person \<Rightarrow> bool" where
  "person_rule p \<longleftrightarrow> nonempty_upto 100 (firstName p) \<and> nonempty_upto 100 (lastName p)"

definition movie_rules :: "MovieCreate \<Rightarrow> bool" where
  "movie_rules b \<longleftrightarrow>
     nonempty_upto 255 (name b) \<and>
     integer_within 1895 3000 (year b) \<and>
     integer_within 0 18 (age_limit b) \<and>
     integer_within 0 5 (rating b) \<and>
     (case actors b of None \<Rightarrow> True | Some as \<Rightarrow> list_all person_rule as) \<and>
     (case director b of None \<Rightarrow> True | Some d \<Rightarrow> person_rule d)"

definition has_nonempty_string :: "jsstring list \<Rightarrow> bool" where
  "has_nonempty_string gs = list_ex (\<lambda>g. g \<noteq> []) gs"

section \<open>api.ts: the request for the movie list\<close>

text \<open>
  \<^verbatim>\<open>MovieFilters\<close>: every field is optional. The sort key and the order are the
  string literals of the type, written by \<open>sort_str\<close> and \<open>order_str\<close>.
\<close>

datatype sort_field = Year | Rating | Name

datatype order_dir = Asc | Desc

fun sort_str :: "sort_field \<Rightarrow> jsstring" where
  "sort_str Year = lit ''year''"
| "sort_str Rating = lit ''rating''"
| "sort_str Name = lit ''name''"

fun order_str :: "order_dir \<Rightarrow> jsstring" where
  "order_str Asc = lit ''asc''"
| "order_str Desc = lit ''desc''"

record MovieFilters =
  search :: "jsstring option"
  sort :: "sort_field option"
  order :: "order_dir option"
  limit :: "number option"
  offset :: "number option"

text \<open>
  \<^verbatim>\<open>URLSearchParams\<close> is a list of name-value pairs; \<^verbatim>\<open>set\<close> replaces the
  first pair of that name and drops the others, or appends a new pair.
\<close>

type_synonym URLSearchParams = "(jsstring \<times> jsstring) list"

fun replace_first :: "jsstring \<Rightarrow> jsstring \<Rightarrow> URLSearchParams \<Rightarrow> URLSearchParams" where
  "replace_first n v [] = []"
| "replace_first n v ((k, x) # ps) =
     (if k = n then (n, v) # filter (\<lambda>(k', _). k' \<noteq> n) ps else (k, x) # replace_first n v ps)"

definition params_set :: "jsstring \<Rightarrow> jsstring \<Rightarrow> URLSearchParams \<Rightarrow> URLSearchParams" where
  "params_set n v ps =
     (if list_ex (\<lambda>(k, _). k = n) ps then replace_first n v ps else ps @ [(n, v)])"

text \<open>
  \<^verbatim>\<open>Number.prototype.toString()\<close>: the decimal digits of an integer up to \<open>2^53\<close> in
  absolute value (every such integer is a number of the language and is written in full),
  the three names for the values that are not finite. How the runtime renders the other
  finite numbers (shortest digits that read back as the same number, with a fraction or an
  exponent where needed) is the parameter \<open>rt\<close>.
\<close>

fun digits :: "nat \<Rightarrow> jsstring" where
  "digits n = (if n < 10 then [of_nat (48 + n)] else digits (n div 10) @ [of_nat (48 + n mod 10)])"

declare digits.simps [simp del]

definition Number_toString :: "(rat \<Rightarrow> jsstring) \<Rightarrow> number \<Rightarrow> jsstring" where
  "Number_toString rt x =
     (case x of
        NaN \<Rightarrow> lit ''NaN''
      | PosInfinity \<Rightarrow> lit ''Infinity''
      | NegInfinity \<Rightarrow> lit ''-Infinity''
      | Finite q \<Rightarrow>
          if isInteger x \<and> \<bar>q\<bar> \<le> 2 ^ 53
          then (if q < 0 then lit ''-'' @ digits (nat (- \<lfloor>q\<rfloor>)) else digits (nat \<lfloor>q\<rfloor>))
          else rt q)"

text \<open>A string is truthy when it is not empty.\<close>

definition truthy_string :: "jsstring \<Rightarrow> bool" where
  "truthy_string s \<longleftrightarrow> s \<noteq> []"

text \<open>
  \<^verbatim>\<open>getMovies\<close>, up to the request: the five conditional \<^verbatim>\<open>params.set\<close>
  statements in their order, and the URL. \<open>enc\<close> is the percent-encoding of the
  platform's serializer of \<^verbatim>\<open>URLSearchParams\<close>.
\<close>

definition getMovies_params :: "(rat \<Rightarrow> jsstring) \<Rightarrow> MovieFilters \<Rightarrow> URLSearchParams" where
  "getMovies_params rt filters =
     (let params = [];
          params = (case search filters of
                      Some s \<Rightarrow> if truthy_string s then params_set (lit ''search'') s params
                                else params
                    | None \<Rightarrow> params);
          params = (case sort filters of
                      Some s \<Rightarrow> if truthy_string (sort_str s)
                                then params_set (lit ''sort'') (sort_str s) params else params
                    | None \<Rightarrow> params);
          params = (case order filters of
                      Some d \<Rightarrow> if truthy_string (order_str d)
                                then params_set (lit ''order'') (order_str d) params else params
                    | None \<Rightarrow> params);
          params = (case limit filters of
                      Some n \<Rightarrow> params_set (lit ''limit'') (Number_toString rt n) params
                    | None \<Rightarrow> params);
          params = (case offset filters of
                      Some n \<Rightarrow> params_set (lit ''offset'') (Number_toString rt n) params
                    | None \<Rightarrow> params)
      in params)"

definition serialize :: "(jsstring \<Rightarrow> jsstring) \<Rightarrow> URLSearchParams \<Rightarrow> jsstring" where
  "serialize enc ps =
     concat (map (\<lambda>(i, (k, v)). (if i = 0 then [] else lit ''&'') @ enc k @ lit ''='' @ enc v)
                 (enumerate 0 ps))"

definition getMovies_url ::
    "jsstring \<Rightarrow> (jsstring \<Rightarrow> jsstring) \<Rightarrow> (rat \<Rightarrow> jsstring) \<Rightarrow> MovieFilters \<Rightarrow> jsstring" where
  "getMovies_url API_BASE_URL enc rt filters =
     (let params = getMovies_params rt filters
      in API_BASE_URL @ lit ''/api/movies'' @
         (if truthy_string (serialize enc params) then lit ''?'' @ serialize enc params else []))"

text \<open>The initial state of \<^verbatim>\<open>filters\<close> in MoviesPage.\<close>

definition MoviesPage_initial_filters :: MovieFilters where
  "MoviesPage_initial_filters =
     \<lparr>search = None, sort = Some Name, order = Some Asc, limit = Some (num 20), offset = None\<rparr>"

text \<open>
  Modelled from the spec: the List handler of the service is not among the sources. The
  specification gives the names of its query parameters (search, limit, offset, sort,
  order) and their defaults (sort=name, order=asc, limit=20, offset=0).
\<close>

definition List_handler_params :: "jsstring list" where
  "List_handler_params =
     [lit ''search'', lit ''limit'', lit ''offset'', lit ''sort'', lit ''order'']"

definition List_handler_defaults :: MovieFilters where
  "List_handler_defaults =
     \<lparr>search = None, sort = Some Name, order = Some Asc, limit = Some (num 20),
      offset = Some (num 0)\<rparr>"

definition example_filters :: MovieFilters where
  "example_filters =
     \<lparr>search = Some (lit ''Alien''), sort = Some Year, order = Some Desc,
      limit = Some (num 20), offset = Some (num 0)\<rparr>"

definition param_names :: "URLSearchParams \<Rightarrow> jsstring list" where
  "param_names ps = map fst ps"

section \<open>api.ts: creating and updating a movie\<close>

text \<open>
  A value read from a JSON text. An object is the list of its properties.
\<close>

datatype json =
    JNull
  | JBool bool
  | JNum number
  | JStr jsstring
  | JArr "json list"
  | JObj "(jsstring \<times> json) list"

text \<open>
  What the client sees of a response: \<^verbatim>\<open>ok\<close>, \<^verbatim>\<open>statusText\<close>, and the
  value \<^verbatim>\<open>response.json()\<close> resolves to, \<open>None\<close> when the body is not JSON and the
  promise rejects.
\<close>

record Response =
  ok :: bool
  statusText :: jsstring
  body :: "json option"

text \<open>
  \<^verbatim>\<open>error.detail\<close>: reading a property of \<^verbatim>\<open>null\<close> throws TypeError; an
  object yields the property or \<^verbatim>\<open>undefined\<close> (\<open>None\<close>); no number, string,
  boolean or array has a property of this name.
\<close>

fun get_detail :: "json \<Rightarrow> exn + json option" where
  "get_detail JNull = Inl TypeError"
| "get_detail (JObj kvs) = Inr (map_of kvs (lit ''detail''))"
| "get_detail _ = Inr None"

fun truthy :: "json \<Rightarrow> bool" where
  "truthy JNull = False"
| "truthy (JBool b) = b"
| "truthy (JNum n) = (n \<noteq> NaN \<and> n \<noteq> Finite 0)"
| "truthy (JStr s) = truthy_string s"
| "truthy (JArr _) = True"
| "truthy (JObj _) = True"

text \<open>\<^verbatim>\<open>a || b\<close>, with \<open>a\<close> possibly \<^verbatim>\<open>undefined\<close>.\<close>

definition or_else :: "json option \<Rightarrow> json \<Rightarrow> json" where
  "or_else a b = (case a of Some v \<Rightarrow> if truthy v then v else b | None \<Rightarrow> b)"

text \<open>
  The conversion to a string that \<^verbatim>\<open>new Error(message)\<close> applies to its argument: a
  string is itself, an array joins its elements with commas (\<^verbatim>\<open>null\<close> as the empty
  string), an object is \<^verbatim>\<open>[object Object]\<close>.
\<close>

fun ToString :: "(rat \<Rightarrow> jsstring) \<Rightarrow> json \<Rightarrow> jsstring" where
  "ToString rt JNull = lit ''null''"
| "ToString rt (JBool b) = (if b then lit ''true'' else lit ''false'')"
| "ToString rt (JNum n) = Number_toString rt n"
| "ToString rt (JStr s) = s"
| "ToString rt (JArr xs) =
     join (lit '','') (map (\<lambda>x. if x = JNull then [] else ToString rt x) xs)"
| "ToString rt (JObj _) = lit ''[object Object]''"

text \<open>
  The failure branch shared by \<^verbatim>\<open>createMovie\<close> and \<^verbatim>\<open>updateMovie\<close>:
  \<^verbatim>\<open>const error = await response.json().catch(() => ({}));
  throw new Error(error.detail || `Failed to ... movie: ${response.statusText}`);\<close>
\<close>

definition throw_not_ok :: "(rat \<Rightarrow> jsstring) \<Rightarrow> jsstring \<Rightarrow> Response \<Rightarrow> exn" where
  "throw_not_ok rt prefix response =
     (let error = (case body response of Some j \<Rightarrow> j | None \<Rightarrow> JObj [])
      in case get_detail error of
           Inl e \<Rightarrow> e
         | Inr detail \<Rightarrow>
             Error (ToString rt (or_else detail (JStr (prefix @ statusText response)))))"

text \<open>
  \<^verbatim>\<open>createMovie\<close> and \<^verbatim>\<open>updateMovie\<close> as functions of the response to their
  request (POST to \<^verbatim>\<open>/api/movies\<close>, PUT to \<^verbatim>\<open>/api/movies/{id}\<close>): the movie
  read from the body, or what is thrown.
\<close>

definition createMovie :: "(rat \<Rightarrow> jsstring) \<Rightarrow> Response \<Rightarrow> exn + json" where
  "createMovie rt response =
     (if \<not> ok response then Inl (throw_not_ok rt (lit ''Failed to create movie: '') response)
      else case body response of None \<Rightarrow> Inl SyntaxError | Some movie \<Rightarrow> Inr movie)"

definition updateMovie :: "(rat \<Rightarrow> jsstring) \<Rightarrow> Response \<Rightarrow> exn + json" where
  "updateMovie rt response =
     (if \<not> ok response then Inl (throw_not_ok rt (lit ''Failed to update movie: '') response)
      else case body response of None \<Rightarrow> Inl SyntaxError | Some movie \<Rightarrow> Inr movie)"

text \<open>The detail field of a response, when its body is an object that has one.\<close>

definition response_detail :: "Response \<Rightarrow> json option" where
  "response_detail response =
     (case body response of Some (JObj kvs) \<Rightarrow> map_of kvs (lit ''detail'') | _ \<Rightarrow> None)"

definition bad_request :: "json option \<Rightarrow> Response" where
  "bad_request b = \<lparr>ok = False, statusText = lit ''Bad Request'', body = b\<rparr>"

section \<open>The query layer: App.tsx and useMovies.ts\<close>

text \<open>
  A query key is an array. The keys of this client hold strings, a movie id and the
  filters object.
\<close>

datatype key_part = KStr jsstring | KNum number | KFilters MovieFilters

type_synonym query_key = "key_part list"

definition useMovies_queryKey :: "MovieFilters \<Rightarrow> query_key" where
  "useMovies_queryKey filters = [KStr (lit ''movies''), KFilters filters]"

definition useMovie_queryKey :: "number \<Rightarrow> query_key" where
  "useMovie_queryKey movieId = [KStr (lit ''movies''), KNum movieId]"

definition useGenres_queryKey :: query_key where
  "useGenres_queryKey = [KStr (lit ''genres'')]"

text \<open>
  The query library files a query under the hash of its key: the JSON text of the key, the
  members of an object sorted by name. Writing JSON drops a member whose value is
  \<^verbatim>\<open>undefined\<close> and writes \<^verbatim>\<open>null\<close> for a number that is not finite. A JSON
  text and the value it denotes determine each other, so the hash is given here as that
  value.
\<close>

definition num_json :: "number \<Rightarrow> json" where
  "num_json n = (case n of Finite q \<Rightarrow> JNum (Finite q) | _ \<Rightarrow> JNull)"

definition json_member :: "string \<Rightarrow> ('a \<Rightarrow> json) \<Rightarrow> 'a option \<Rightarrow> (jsstring \<times> json) list" where
  "json_member k write v = (case v of None \<Rightarrow> [] | Some x \<Rightarrow> [(lit k, write x)])"

definition filters_json :: "MovieFilters \<Rightarrow> json" where
  "filters_json f =
     JObj (json_member ''limit'' num_json (limit f) @
           json_member ''offset'' num_json (offset f) @
           json_member ''order'' (\<lambda>d. JStr (order_str d)) (order f) @
           json_member ''search'' JStr (search f) @
           json_member ''sort'' (\<lambda>s. JStr (sort_str s)) (sort f))"

fun part_json :: "key_part \<Rightarrow> json" where
  "part_json (KStr s) = JStr s"
| "part_json (KNum n) = num_json n"
| "part_json (KFilters f) = filters_json f"

definition hashKey :: "query_key \<Rightarrow> json" where
  "hashKey key = JArr (map part_json key)"

text \<open>A query of the cache, and the cache: a map from hashes to queries.\<close>

record Query =
  queryKey :: query_key
  data :: "json option"
  isInvalidated :: bool

type_synonym QueryCache = "json \<rightharpoonup> Query"

text \<open>
  A fetch that succeeds stores its result in the query filed under the hash of the key,
  building the query when there is none.
\<close>

definition fetch_success :: "query_key \<Rightarrow> json \<Rightarrow> QueryCache \<Rightarrow> QueryCache" where
  "fetch_success key result cache =
     (case cache (hashKey key) of
        None \<Rightarrow> cache(hashKey key \<mapsto> \<lparr>queryKey = key, data = Some result, isInvalidated = False\<rparr>)
      | Some q \<Rightarrow> cache(hashKey key \<mapsto> q\<lparr>data := Some result, isInvalidated := False\<rparr>))"

text \<open>
  \<^verbatim>\<open>invalidateQueries({ queryKey })\<close> marks every query whose key the given key
  matches partially: the given key is a prefix, element by element, strings and numbers
  compared with \<^verbatim>\<open>===\<close>. The keys this client invalidates hold strings and an id.
\<close>

datatype pattern_part = PStr jsstring | PNum number

definition strict_eq :: "number \<Rightarrow> number \<Rightarrow> bool" where
  "strict_eq a b \<longleftrightarrow> a \<noteq> NaN \<and> a = b"

fun part_matches :: "key_part \<Rightarrow> pattern_part \<Rightarrow> bool" where
  "part_matches (KStr a) (PStr b) = (a = b)"
| "part_matches (KNum a) (PNum b) = strict_eq a b"
| "part_matches _ _ = False"

fun partialMatchKey :: "query_key \<Rightarrow> pattern_part list \<Rightarrow> bool" where
  "partialMatchKey a [] = True"
| "partialMatchKey [] (b # bs) = False"
| "partialMatchKey (a # as) (b # bs) = (part_matches a b \<and> partialMatchKey as bs)"

definition invalidateQueries :: "pattern_part list \<Rightarrow> QueryCache \<Rightarrow> QueryCache" where
  "invalidateQueries pattern cache =
     (\<lambda>h. map_option
             (\<lambda>q. if partialMatchKey (queryKey q) pattern then q\<lparr>isInvalidated := True\<rparr> else q)
             (cache h))"

text \<open>The \<^verbatim>\<open>onSuccess\<close> callbacks of the two mutations.\<close>

definition useCreateMovie_onSuccess :: "QueryCache \<Rightarrow> QueryCache" where
  "useCreateMovie_onSuccess cache = invalidateQueries [PStr (lit ''movies'')] cache"

definition useUpdateMovie_onSuccess :: "number \<Rightarrow> QueryCache \<Rightarrow> QueryCache" where
  "useUpdateMovie_onSuccess movieId cache =
     invalidateQueries [PStr (lit ''movies''), PNum movieId]
       (invalidateQueries [PStr (lit ''movies'')] cache)"

text \<open>
  The retryer of the query library runs a function and, when it fails, runs it again while
  the option \<^verbatim>\<open>retry\<close> allows: \<^verbatim>\<open>true\<close>, or a number above the count of
  failures so far. The function's successive results are given as a list; the retryer
  returns how the call settles and how many times it ran the function. It is pending when
  the list ends before the call settles.
\<close>

datatype retry_option = RetryCount nat | RetryBool bool

definition shouldRetry :: "retry_option \<Rightarrow> nat \<Rightarrow> bool" where
  "shouldRetry retry failureCount =
     (case retry of RetryBool b \<Rightarrow> b | RetryCount n \<Rightarrow> failureCount < n)"

datatype ('e, 'a) settled = Resolved 'a | Rejected 'e | Pending

fun retryer :: "retry_option \<Rightarrow> nat \<Rightarrow> ('e + 'a) list \<Rightarrow> ('e, 'a) settled \<times> nat" where
  "retryer retry failureCount [] = (Pending, 0)"
| "retryer retry failureCount (Inr v # rest) = (Resolved v, 1)"
| "retryer retry failureCount (Inl e # rest) =
     (if shouldRetry retry failureCount
      then (case retryer retry (Suc failureCount) rest of (r, n) \<Rightarrow> (r, Suc n))
      else (Rejected e, 1))"

text \<open>
  The options of the client, \<^verbatim>\<open>new QueryClient({ defaultOptions: { queries: {
  staleTime: 1000 * 60 * 5, retry: 1 } } })\<close>, and how the library resolves the retry
  option: the hook's own, else the client's default, else the library's (3 for a query,
  0 for a mutation).
\<close>

record DefaultOptions =
  queries_staleTime :: "nat option"
  queries_retry :: "retry_option option"
  mutations_retry :: "retry_option option"

definition queryClient :: DefaultOptions where
  "queryClient =
     \<lparr>queries_staleTime = Some (1000 * 60 * 5), queries_retry = Some (RetryCount 1),
      mutations_retry = None\<rparr>"

definition query_retry :: "DefaultOptions \<Rightarrow> retry_option option \<Rightarrow> retry_option" where
  "query_retry client own =
     (case own of Some r \<Rightarrow> r
      | None \<Rightarrow> (case queries_retry client of Some r \<Rightarrow> r | None \<Rightarrow> RetryCount 3))"

definition mutation_retry :: "DefaultOptions \<Rightarrow> retry_option option \<Rightarrow> retry_option" where
  "mutation_retry client own =
     (case own of Some r \<Rightarrow> r
      | None \<Rightarrow> (case mutations_retry client of Some r \<Rightarrow> r | None \<Rightarrow> RetryCount 0))"

text \<open>
  The hooks. None of them sets \<^verbatim>\<open>retry\<close>; the query for one movie is enabled
  only when the id is truthy. A query runs its function under the retryer and stores a
  result; a mutation runs its function under the retryer and calls \<^verbatim>\<open>onSuccess\<close>
  when it resolves.
\<close>

definition run_query ::
    "query_key \<Rightarrow> (exn + json) list \<Rightarrow> QueryCache \<Rightarrow> ((exn, json) settled \<times> nat) \<times> QueryCache" where
  "run_query key results cache =
     (case retryer (query_retry queryClient None) 0 results of
        (Resolved v, n) \<Rightarrow> ((Resolved v, n), fetch_success key v cache)
      | (r, n) \<Rightarrow> ((r, n), cache))"

definition useMovies :: "MovieFilters \<Rightarrow> (exn + json) list \<Rightarrow> QueryCache \<Rightarrow>
    ((exn, json) settled \<times> nat) \<times> QueryCache" where
  "useMovies filters = run_query (useMovies_queryKey filters)"

definition useMovie :: "number \<Rightarrow> (exn + json) list \<Rightarrow> QueryCache \<Rightarrow>
    ((exn, json) settled \<times> nat) \<times> QueryCache" where
  "useMovie movieId results cache =
     (if truthy (JNum movieId) then run_query (useMovie_queryKey movieId) results cache
      else ((Pending, 0), cache))"

definition useGenres :: "(exn + json) list \<Rightarrow> QueryCache \<Rightarrow>
    ((exn, json) settled \<times> nat) \<times> QueryCache" where
  "useGenres = run_query useGenres_queryKey"

definition useCreateMovie :: "(rat \<Rightarrow> jsstring) \<Rightarrow> Response list \<Rightarrow> QueryCache \<Rightarrow>
    ((exn, json) settled \<times> nat) \<times> QueryCache" where
  "useCreateMovie rt responses cache =
     (case retryer (mutation_retry queryClient None) 0 (map (createMovie rt) responses) of
        (Resolved v, n) \<Rightarrow> ((Resolved v, n), useCreateMovie_onSuccess cache)
      | (r, n) \<Rightarrow> ((r, n), cache))"

definition useUpdateMovie :: "(rat \<Rightarrow> jsstring) \<Rightarrow> number \<Rightarrow> Response list \<Rightarrow> QueryCache \<Rightarrow>
    ((exn, json) settled \<times> nat) \<times> QueryCache" where
  "useUpdateMovie rt movieId responses cache =
     (case retryer (mutation_retry queryClient None) 0 (map (updateMovie rt) responses) of
        (Resolved v, n) \<Rightarrow> ((Resolved v, n), useUpdateMovie_onSuccess movieId cache)
      | (r, n) \<Rightarrow> ((r, n), cache))"

text \<open>
  Filters whose limit and offset are finite numbers when present, and keys that begin with
  \<^verbatim>\<open>"movies"\<close>.
\<close>

definition finite_number :: "number option \<Rightarrow> bool" where
  "finite_number n = (case n of Some (Finite _) \<Rightarrow> True | None \<Rightarrow> True | _ \<Rightarrow> False)"

definition finite_filters :: "MovieFilters \<Rightarrow> bool" where
  "finite_filters f \<longleftrightarrow> finite_number (limit f) \<and> finite_number (offset f)"

definition begins_with_movies :: "query_key \<Rightarrow> bool" where
  "begins_with_movies key = (case key of KStr s # _ \<Rightarrow> s = lit ''movies'' | _ \<Rightarrow> False)"

section \<open>MovieCard: HighlightText\<close>

text \<open>
  \<^verbatim>\<open>String.prototype.trim\<close> removes white space and line terminators at both ends.
\<close>

definition is_whitespace :: "code_unit \<Rightarrow> bool" where
  "is_whitespace c \<longleftrightarrow>
     c \<in> {0x09, 0x0A, 0x0B, 0x0C, 0x0D, 0x20, 0xA0, 0x1680, 0x2028, 0x2029, 0x202F, 0x205F,
          0x3000, 0xFEFF} \<or> (0x2000 \<le> c \<and> c \<le> 0x200A)"

definition trim :: "jsstring \<Rightarrow> jsstring" where
  "trim s = rev (dropWhile is_whitespace (rev (dropWhile is_whitespace s)))"

text \<open>
  \<^verbatim>\<open>new RegExp(`(${highlight})`, 'gi')\<close>. When the highlight has none of the syntax
  characters of regular expressions (the backslash and \<^verbatim>\<open>^ $ . | ? * + ( ) [ ] { }\<close>)
  the pattern is one capture group around the characters of the highlight, each matching
  itself. Other patterns are not modelled: \<open>None\<close>.
\<close>

definition is_syntax_character :: "code_unit \<Rightarrow> bool" where
  "is_syntax_character c \<longleftrightarrow>
     c \<in> {0x5C, 0x5E, 0x24, 0x2E, 0x7C, 0x3F, 0x2A, 0x2B, 0x28, 0x29, 0x5B, 0x5D, 0x7B, 0x7D}"

definition RegExp_group :: "jsstring \<Rightarrow> code_unit list option" where
  "RegExp_group highlight =
     (if list_ex is_syntax_character highlight then None else Some highlight)"

text \<open>
  A match of the group at the start of the rest of the input, ignoring case: the pattern's
  characters and the input's are compared after canonicalization. \<open>canon\<close> is the
  canonicalization of a code unit (the case tables of the platform).
\<close>

definition matches_at :: "(code_unit \<Rightarrow> code_unit) \<Rightarrow> code_unit list \<Rightarrow> jsstring \<Rightarrow> bool" where
  "matches_at canon pat rest \<longleftrightarrow>
     length pat \<le> length rest \<and> map canon (take (length pat) rest) = map canon pat"

definition substring :: "jsstring \<Rightarrow> nat \<Rightarrow> nat \<Rightarrow> jsstring" where
  "substring S from to = take (to - from) (drop from S)"

text \<open>
  \<^verbatim>\<open>String.prototype.split\<close> with a regular expression, no limit: \<open>p\<close> is the end of
  the last match and \<open>q\<close> the place where a match is tried; a match that ends at \<open>p\<close> is
  passed over; any other match appends the text before it and the text of the capture
  group.
\<close>

function split_loop ::
    "(code_unit \<Rightarrow> code_unit) \<Rightarrow> code_unit list \<Rightarrow> jsstring \<Rightarrow> nat \<Rightarrow> nat \<Rightarrow> jsstring list
       \<Rightarrow> jsstring list" where
  "split_loop canon pat S p q A =
     (if q < length S then
        (if matches_at canon pat (drop q S) then
           (let e = min (q + length pat) (length S)
            in if e = p then split_loop canon pat S p (Suc q) A
               else split_loop canon pat S e e (A @ [substring S p q, substring S q e]))
         else split_loop canon pat S p (Suc q) A)
      else A @ [substring S p (length S)])"
  by pat_completeness auto
termination
  by (relation "measures [\<lambda>(canon, pat, S, p, q, A). length S - q,
                          \<lambda>(canon, pat, S, p, q, A). if p = q then 0 else 1]")
     (auto simp: Let_def min_def intro!: diff_less_mono2)

declare split_loop.simps [simp del]

definition split :: "(code_unit \<Rightarrow> code_unit) \<Rightarrow> code_unit list \<Rightarrow> jsstring \<Rightarrow> jsstring list" where
  "split canon pat S =
     (if S = [] then (if matches_at canon pat [] then [] else [S])
      else split_loop canon pat S 0 0 [])"

text \<open>
  The component. \<open>toLowerCase\<close> is the platform's mapping of a string to lower case. The
  result is the list of elements rendered: the text alone, or a mark or a span per part.
\<close>

datatype element = Text jsstring | Mark jsstring | Span jsstring

fun element_text :: "element \<Rightarrow> jsstring" where
  "element_text (Text s) = s"
| "element_text (Mark s) = s"
| "element_text (Span s) = s"

definition rendered :: "element list \<Rightarrow> jsstring" where
  "rendered es = concat (map element_text es)"

definition HighlightText ::
    "(code_unit \<Rightarrow> code_unit) \<Rightarrow> (jsstring \<Rightarrow> jsstring) \<Rightarrow> jsstring \<Rightarrow> jsstring option
       \<Rightarrow> element list option" where
  "HighlightText canon toLowerCase text highlight =
     (case highlight of
        None \<Rightarrow> Some [Text text]
      | Some h \<Rightarrow>
          if \<not> truthy_string h \<or> \<not> truthy_string (trim h) then Some [Text text]
          else (case RegExp_group h of
                  None \<Rightarrow> None
                | Some pat \<Rightarrow>
                    Some (map (\<lambda>part. if toLowerCase part = toLowerCase h then Mark part
                                       else Span part)
                              (split canon pat text))))"

text \<open>The case mappings on ASCII letters, to run the component on examples.\<close>

definition ascii_upper :: "code_unit \<Rightarrow> code_unit" where
  "ascii_upper c = (if 0x61 \<le> c \<and> c \<le> 0x7A then c - 0x20 else c)"

definition ascii_lower :: "jsstring \<Rightarrow> jsstring" where
  "ascii_lower s = map (\<lambda>c. if 0x41 \<le> c \<and> c \<le> 0x5A then c + 0x20 else c) s"


section \<open>SearchBar: the debounced search\<close>

text \<open>
  The effect of SearchBar,
  \<^verbatim>\<open>useEffect(() => { const timer = setTimeout(() => { onSearchChange(search); }, 300);
  return () => clearTimeout(timer); }, [search, onSearchChange])\<close>,
  over a clock that counts milliseconds. The state holds the state variable
  \<^verbatim>\<open>search\<close>, the pending timer (when it is due and the value its callback
  passes on) and the calls of \<^verbatim>\<open>onSearchChange\<close> made so far, each with the time its
  timer was due. \<^verbatim>\<open>onSearchChange\<close> is the same function at every render, as it is in
  MoviesPage, which wraps it in \<^verbatim>\<open>useCallback\<close> with no dependencies.
\<close>

record SearchBar_state =
  search_state :: jsstring
  timer :: "(nat \<times> jsstring) option"
  emitted :: "(nat \<times> jsstring) list"

definition debounce_delay :: nat where
  "debounce_delay = 300"

text \<open>Mounting runs the effect once, with the initial search text.\<close>

definition mount :: "nat \<Rightarrow> SearchBar_state" where
  "mount now = \<lparr>search_state = [], timer = Some (now + debounce_delay, []), emitted = []\<rparr>"

text \<open>A timer that is due by \<open>now\<close> runs its callback.\<close>

definition fire_due :: "nat \<Rightarrow> SearchBar_state \<Rightarrow> SearchBar_state" where
  "fire_due now st =
     (case timer st of
        Some (due, v) \<Rightarrow>
          if due \<le> now then st\<lparr>timer := None, emitted := emitted st @ [(due, v)]\<rparr> else st
      | None \<Rightarrow> st)"

text \<open>
  A change of the input at \<open>now\<close> calls \<^verbatim>\<open>setSearch\<close>. When the value differs from the
  state the component renders again and the effect runs again: its cleanup clears the
  pending timer and a new one is set. Setting the state to the value it has does nothing.
\<close>

definition change :: "SearchBar_state \<Rightarrow> nat \<times> jsstring \<Rightarrow> SearchBar_state" where
  "change st ev =
     (case ev of (now, v) \<Rightarrow>
        (let st1 = fire_due now st
         in if v = search_state st1 then st1
            else st1\<lparr>search_state := v, timer := Some (now + debounce_delay, v)\<rparr>))"

definition changes :: "SearchBar_state \<Rightarrow> (nat \<times> jsstring) list \<Rightarrow> SearchBar_state" where
  "changes st evs = foldl change st evs"

text \<open>Time passing with no further change: a pending timer runs.\<close>

definition pause :: "SearchBar_state \<Rightarrow> SearchBar_state" where
  "pause st =
     (case timer st of
        Some (due, v) \<Rightarrow> st\<lparr>timer := None, emitted := emitted st @ [(due, v)]\<rparr>
      | None \<Rightarrow> st)"

text \<open>
  Sequences of changes: each not before and less than the delay after the one before, and
  each to a value other than the one the input has (a change event of a text input carries
  a new value).
\<close>

fun rapid :: "(nat \<times> jsstring) list \<Rightarrow> bool" where
  "rapid [] = True"
| "rapid [e] = True"
| "rapid ((t, v) # (t', v') # es) = (t \<le> t' \<and> t' < t + debounce_delay \<and> rapid ((t', v') # es))"

fun differing :: "jsstring \<Rightarrow> (nat \<times> jsstring) list \<Rightarrow> bool" where
  "differing cur [] = True"
| "differing cur ((t, v) # es) = (v \<noteq> cur \<and> differing v es)"

section \<open>Sample data\<close>

text \<open>The movie of the component tests, as a create body, and its people.\<close>

definition john :: Person where
  "john = \<lparr>firstName = lit ''John'', lastName = lit ''Doe''\<rparr>"

definition jane :: Person where
  "jane = \<lparr>firstName = lit ''Jane'', lastName = lit ''Smith''\<rparr>"

definition mockMovie :: MovieCreate where
  "mockMovie =
     \<lparr>name = lit ''Test Movie'', year = num 2024, age_limit = num 12, rating = num 4,
      synopsis = Some (lit ''A test movie synopsis''),
      genres = [lit ''Action'', lit ''Comedy''],
      actors = Some [john, jane],
      director = Some \<lparr>firstName = lit ''Steven'', lastName = lit ''Director''\<rparr>\<rparr>"

definition one_actor :: actor_state where
  "one_actor = \<lparr>selectedActors = [john], form_actors = None, actorSearch = [],
     showActorResults = False\<rparr>"

definition no_filters :: MovieFilters where
  "no_filters = \<lparr>search = None, sort = None, order = None, limit = None, offset = None\<rparr>"

definition created :: Response where
  "created = \<lparr>ok = True, statusText = lit ''Created'', body = Some (JObj [])\<rparr>"

definition nan_limit :: MovieFilters where
  "nan_limit = no_filters\<lparr>limit := Some NaN\<rparr>"

definition infinite_limit :: MovieFilters where
  "infinite_limit = no_filters\<lparr>limit := Some PosInfinity\<rparr>"

definition listed :: QueryCache where
  "listed = snd (useMovies MoviesPage_initial_filters [Inr (JObj [])] Map.empty)"

text \<open>Typing a word, one change at a time, the component mounted at time 0.\<close>

definition typing :: "(nat \<times> jsstring) list" where
  "typing = [(1000, lit ''a''), (1100, lit ''al''), (1350, lit ''ali''), (1600, lit ''alien'')]"

section \<open>The schema and the validation rules\<close>

lemma accepts_iff: "accepts s x \<longleftrightarrow> s [] x = []"
  by (simp add: accepts_def safeParse_def split: list.splits)

lemma string_rule_iff:
  "z_string [min_length m, max_length n] p s = [] \<longleftrightarrow> m \<le> length s \<and> length s \<le> n"
  by (auto simp: z_string_def z_checks_def min_length_def max_length_def)

lemma isInteger_iff_Ints: "isInteger (Finite q) \<longleftrightarrow> q \<in> \<int>"
  by (auto simp: Ints_def elim!: Ints_cases)

lemma number_rule_iff:
  "z_number [z_int, z_min lo, z_max hi] p x = [] \<longleftrightarrow> integer_within lo hi x"
  by (cases x)
     (auto simp: z_number_def z_checks_def z_int_def z_min_def z_max_def integer_within_def
        num_def num_le_def isInteger_iff_Ints simp del: isInteger.simps)

lemma person_rule_iff: "personSchema p x = [] \<longleftrightarrow> person_rule x"
  by (auto simp: personSchema_def person_rule_def string_rule_iff nonempty_upto_def Suc_le_eq)

lemma persons_elems_iff:
  "concat (map (\<lambda>(i, x). personSchema (p @ [Index i]) x) (enumerate n xs)) = []
     \<longleftrightarrow> list_all person_rule xs"
  by (induction xs arbitrary: n) (simp_all add: person_rule_iff)

lemma persons_rule_iff: "z_array personSchema [] p xs = [] \<longleftrightarrow> list_all person_rule xs"
  by (simp add: z_array_def z_checks_def persons_elems_iff del: concat_eq_Nil_conv)

lemma strings_elems_empty:
  "concat (map (\<lambda>(i, x). z_string [] (p @ [Index i]) x) (enumerate n xs)) = []"
  by (induction xs arbitrary: n) (simp_all add: z_string_def z_checks_def)

lemma genres_rule_iff: "z_array (z_string []) [min_length m] p gs = [] \<longleftrightarrow> m \<le> length gs"
  by (auto simp: z_array_def z_checks_def strings_elems_empty min_length_def)

lemma movieCreateSchema_iff:
  "accepts movieCreateSchema b \<longleftrightarrow> movie_rules b \<and> genres b \<noteq> []"
proof -
  have syn: "z_optional (z_string []) p (synopsis b) = []" for p
    by (simp add: z_optional_def z_string_def z_checks_def split: option.splits)
  have act: "z_optional (z_array personSchema []) p (actors b) = []
      \<longleftrightarrow> (case actors b of None \<Rightarrow> True | Some as \<Rightarrow> list_all person_rule as)" for p
    by (simp add: z_optional_def persons_rule_iff split: option.splits)
  have dir: "z_optional personSchema p (director b) = []
      \<longleftrightarrow> (case director b of None \<Rightarrow> True | Some d \<Rightarrow> person_rule d)" for p
    by (simp add: z_optional_def person_rule_iff split: option.splits)
  have nm: "z_string [min_length 1, max_length 255] p (name b) = []
      \<longleftrightarrow> nonempty_upto 255 (name b)" for p
    by (auto simp only: string_rule_iff nonempty_upto_def One_nat_def Suc_le_eq
        length_greater_0_conv)
  have gs: "z_array (z_string []) [min_length 1] p (genres b) = [] \<longleftrightarrow> genres b \<noteq> []" for p
    by (auto simp only: genres_rule_iff One_nat_def Suc_le_eq length_greater_0_conv)
  show ?thesis
    unfolding accepts_iff movieCreateSchema_def movie_rules_def append_is_Nil_conv
      syn act dir nm gs number_rule_iff
    by blast
qed

lemma mockMovie_rules: "movie_rules mockMovie"
  by (simp add: mockMovie_def john_def jane_def movie_rules_def nonempty_upto_def
      integer_within_def person_rule_def lit_def num_def)

text \<open>
  C1. The schema accepts a create body only if its name is non-empty and at most 255 long,
  its year is an integer within 1895 and 3000, its age limit an integer within 0 and 18,
  its rating an integer within 0 and 5, and the two names of each actor and of the director
  are non-empty and at most 100 long; and it accepts every body that satisfies all of these
  and has a non-empty genres list. Lengths count code units, as the length checks of the
  schema do.
\<close>

theorem movieCreateSchema_rules:
  "(accepts movieCreateSchema b \<longrightarrow> movie_rules b) \<and>
   (movie_rules b \<and> genres b \<noteq> [] \<longrightarrow> accepts movieCreateSchema b)"
  by (simp add: movieCreateSchema_iff)

theorem movieCreateSchema_rules_witness:
  "movie_rules mockMovie \<and> genres mockMovie \<noteq> [] \<and> accepts movieCreateSchema mockMovie"
  using movieCreateSchema_rules [of mockMovie] mockMovie_rules
  by (simp add: mockMovie_def)

text \<open>
  C2, as the specification states it, asks that an accepted body has at least one non-empty
  string among its genres. The schema bounds the length of the array only: the sample movie
  with the single genre \<^verbatim>\<open>""\<close> is accepted.
\<close>

theorem movieCreateSchema_blank_genre:
  "accepts movieCreateSchema (mockMovie\<lparr>genres := [[]]\<rparr>) \<and>
   \<not> has_nonempty_string (genres (mockMovie\<lparr>genres := [[]]\<rparr>))"
  using mockMovie_rules
  by (simp add: movieCreateSchema_iff movie_rules_def has_nonempty_string_def)

text \<open>
  C2, amended. The schema accepts a body only if its genres list has at least one element,
  and the elements themselves are not looked at: replacing the genres of an accepted body
  by any non-empty list, of empty strings too, leaves it accepted.
\<close>

theorem movieCreateSchema_genres_count:
  "(accepts movieCreateSchema b \<longrightarrow> genres b \<noteq> []) \<and>
   (accepts movieCreateSchema b \<and> gs \<noteq> [] \<longrightarrow> accepts movieCreateSchema (b\<lparr>genres := gs\<rparr>))"
  by (simp add: movieCreateSchema_iff movie_rules_def)

theorem movieCreateSchema_genres_count_witness:
  "accepts movieCreateSchema mockMovie \<and> genres mockMovie \<noteq> [] \<and>
   [[]] \<noteq> ([] :: jsstring list) \<and> accepts movieCreateSchema (mockMovie\<lparr>genres := [[]]\<rparr>)"
  using movieCreateSchema_genres_count [of mockMovie "[[]]"] mockMovie_rules
  by (simp add: movieCreateSchema_iff mockMovie_def)

section \<open>The request for the movie list\<close>

lemma params_set_fresh:
  "n \<notin> set (map fst ps) \<Longrightarrow> params_set n v ps = ps @ [(n, v)]"
  by (force simp: params_set_def list_ex_iff)

lemma sort_str_truthy: "sort_str x \<noteq> []"
  by (cases x) (simp_all add: lit_def)

lemma order_str_truthy: "order_str x \<noteq> []"
  by (cases x) (simp_all add: lit_def)

lemma getMovies_params_eq:
  "getMovies_params rt f =
     (case search f of Some s \<Rightarrow> if s \<noteq> [] then [(lit ''search'', s)] else [] | None \<Rightarrow> []) @
     (case sort f of Some s \<Rightarrow> [(lit ''sort'', sort_str s)] | None \<Rightarrow> []) @
     (case order f of Some d \<Rightarrow> [(lit ''order'', order_str d)] | None \<Rightarrow> []) @
     (case limit f of Some n \<Rightarrow> [(lit ''limit'', Number_toString rt n)] | None \<Rightarrow> []) @
     (case offset f of Some n \<Rightarrow> [(lit ''offset'', Number_toString rt n)] | None \<Rightarrow> [])"
  by (cases "search f"; cases "sort f"; cases "order f"; cases "limit f"; cases "offset f")
     (simp_all add: getMovies_params_def params_set_def truthy_string_def sort_str_truthy
        order_str_truthy lit_def)

lemma join_Cons: "join sep (x # xs) = x @ concat (map (\<lambda>y. sep @ y) xs)"
  by (induction xs arbitrary: x) simp_all

lemma serialize_tail:
  "concat (map (\<lambda>(i, (k, v)). (if i = 0 then [] else sep) @ g k v) (enumerate (Suc n) ps))
     = concat (map (\<lambda>y. sep @ y) (map (\<lambda>(k, v). g k v) ps))"
  by (induction ps arbitrary: n) auto

lemma serialize_join:
  "serialize enc ps = join (lit ''&'') (map (\<lambda>(k, v). enc k @ lit ''='' @ enc v) ps)"
proof (cases ps)
  case Nil
  then show ?thesis by (simp add: serialize_def)
next
  case (Cons p ps')
  obtain k v where p: "p = (k, v)" by (cases p)
  have "serialize enc ((k, v) # ps')
      = (enc k @ lit ''='' @ enc v) @
        concat (map (\<lambda>y. lit ''&'' @ y) (map (\<lambda>(k, v). enc k @ lit ''='' @ enc v) ps'))"
    using serialize_tail [of "lit ''&''" "\<lambda>k v. enc k @ lit ''='' @ enc v" 0 ps']
    by (simp add: serialize_def del: map_map)
  then show ?thesis
    unfolding Cons p by (simp only: join_Cons list.map prod.case)
qed

lemma serialize_empty_iff: "serialize enc ps = [] \<longleftrightarrow> ps = []"
proof (cases ps)
  case Nil
  then show ?thesis by (simp add: serialize_def)
next
  case (Cons p ps')
  obtain k v where p: "p = (k, v)" by (cases p)
  show ?thesis
    using Cons by (simp add: serialize_join join_Cons p lit_def)
qed

lemma getMovies_url_eq:
  "getMovies_url API_BASE_URL enc rt f =
     API_BASE_URL @ lit ''/api/movies'' @
       (case getMovies_params rt f of
          [] \<Rightarrow> []
        | p # ps \<Rightarrow>
            lit ''?'' @ join (lit ''&'') (map (\<lambda>(k, v). enc k @ lit ''='' @ enc v) (p # ps)))"
proof -
  have e: "truthy_string (serialize enc ps) \<longleftrightarrow> ps \<noteq> []" for ps
    by (simp add: truthy_string_def serialize_empty_iff)
  show ?thesis
    unfolding getMovies_url_def Let_def e
    by (cases "getMovies_params rt f")
       (simp_all only: serialize_join list.case list.distinct simp_thms if_True if_False)
qed


text \<open>
  C3. The URL that getMovies requests is the base URL, the path \<^verbatim>\<open>/api/movies\<close> and,
  when a parameter is set, a question mark and the pairs \<^verbatim>\<open>name=value\<close> joined by
  \<^verbatim>\<open>&\<close>. The parameters are named as the List handler names them, each at most once,
  in the order search, sort, order, limit, offset, and a parameter is set only when the
  filter field of that name is present. The initial filters of MoviesPage give sort, order
  and limit the contract's default values (name, asc, 20) and leave offset out, and so
  does the URL of the initial request.
\<close>

theorem getMovies_url_contract:
  "getMovies_url API_BASE_URL enc rt f =
     API_BASE_URL @ lit ''/api/movies'' @
       (case getMovies_params rt f of
          [] \<Rightarrow> []
        | p # ps \<Rightarrow>
            lit ''?'' @ join (lit ''&'') (map (\<lambda>(k, v). enc k @ lit ''='' @ enc v) (p # ps))) \<and>
   getMovies_params rt f =
     (case search f of Some s \<Rightarrow> if s \<noteq> [] then [(lit ''search'', s)] else [] | None \<Rightarrow> []) @
     (case sort f of Some s \<Rightarrow> [(lit ''sort'', sort_str s)] | None \<Rightarrow> []) @
     (case order f of Some d \<Rightarrow> [(lit ''order'', order_str d)] | None \<Rightarrow> []) @
     (case limit f of Some n \<Rightarrow> [(lit ''limit'', Number_toString rt n)] | None \<Rightarrow> []) @
     (case offset f of Some n \<Rightarrow> [(lit ''offset'', Number_toString rt n)] | None \<Rightarrow> []) \<and>
   set (param_names (getMovies_params rt f)) \<subseteq> set List_handler_params \<and>
   distinct (param_names (getMovies_params rt f)) \<and>
   (lit ''search'' \<in> set (param_names (getMovies_params rt f)) \<longrightarrow> search f \<noteq> None) \<and>
   (lit ''sort'' \<in> set (param_names (getMovies_params rt f)) \<longrightarrow> sort f \<noteq> None) \<and>
   (lit ''order'' \<in> set (param_names (getMovies_params rt f)) \<longrightarrow> order f \<noteq> None) \<and>
   (lit ''limit'' \<in> set (param_names (getMovies_params rt f)) \<longrightarrow> limit f \<noteq> None) \<and>
   (lit ''offset'' \<in> set (param_names (getMovies_params rt f)) \<longrightarrow> offset f \<noteq> None) \<and>
   sort MoviesPage_initial_filters = sort List_handler_defaults \<and>
   order MoviesPage_initial_filters = order List_handler_defaults \<and>
   limit MoviesPage_initial_filters = limit List_handler_defaults \<and>
   offset MoviesPage_initial_filters = None \<and>
   getMovies_params rt MoviesPage_initial_filters =
     [(lit ''sort'', lit ''name''), (lit ''order'', lit ''asc''), (lit ''limit'', lit ''20'')] \<and>
   getMovies_url API_BASE_URL enc rt MoviesPage_initial_filters =
     API_BASE_URL @ lit ''/api/movies'' @ lit ''?'' @
       enc (lit ''sort'') @ lit ''='' @ enc (lit ''name'') @ lit ''&'' @
       enc (lit ''order'') @ lit ''='' @ enc (lit ''asc'') @ lit ''&'' @
       enc (lit ''limit'') @ lit ''='' @ enc (lit ''20'')"
proof -
  have twenty: "Number_toString rt (num 20) = lit ''20''"
    by (simp add: Number_toString_def num_def digits.simps lit_def)
  have names: "set (param_names (getMovies_params rt f)) \<subseteq> set List_handler_params"
    unfolding getMovies_params_eq param_names_def List_handler_params_def
    by (auto split: option.splits if_splits)
  have dist: "distinct (param_names (getMovies_params rt f))"
    unfolding getMovies_params_eq param_names_def
    by (simp add: lit_def split: option.splits)
  have only: "(lit ''search'' \<in> set (param_names (getMovies_params rt f)) \<longrightarrow> search f \<noteq> None) \<and>
   (lit ''sort'' \<in> set (param_names (getMovies_params rt f)) \<longrightarrow> sort f \<noteq> None) \<and>
   (lit ''order'' \<in> set (param_names (getMovies_params rt f)) \<longrightarrow> order f \<noteq> None) \<and>
   (lit ''limit'' \<in> set (param_names (getMovies_params rt f)) \<longrightarrow> limit f \<noteq> None) \<and>
   (lit ''offset'' \<in> set (param_names (getMovies_params rt f)) \<longrightarrow> offset f \<noteq> None)"
    unfolding getMovies_params_eq param_names_def
    by (cases "search f"; cases "sort f"; cases "order f"; cases "limit f"; cases "offset f")
       (auto simp: lit_def)
  have init: "getMovies_params rt MoviesPage_initial_filters =
     [(lit ''sort'', lit ''name''), (lit ''order'', lit ''asc''), (lit ''limit'', lit ''20'')]"
    unfolding getMovies_params_eq by (simp add: MoviesPage_initial_filters_def twenty)
  have url: "getMovies_url API_BASE_URL enc rt MoviesPage_initial_filters =
     API_BASE_URL @ lit ''/api/movies'' @ lit ''?'' @
       enc (lit ''sort'') @ lit ''='' @ enc (lit ''name'') @ lit ''&'' @
       enc (lit ''order'') @ lit ''='' @ enc (lit ''asc'') @ lit ''&'' @
       enc (lit ''limit'') @ lit ''='' @ enc (lit ''20'')"
    unfolding getMovies_url_eq init by simp
  have defaults: "sort MoviesPage_initial_filters = sort List_handler_defaults \<and>
      order MoviesPage_initial_filters = order List_handler_defaults \<and>
      limit MoviesPage_initial_filters = limit List_handler_defaults \<and>
      offset MoviesPage_initial_filters = None"
    by (simp add: MoviesPage_initial_filters_def List_handler_defaults_def)
  show ?thesis
    using getMovies_url_eq [of API_BASE_URL enc rt f] getMovies_params_eq [of rt f]
      names dist only defaults init url
    by blast
qed

theorem getMovies_url_contract_witness:
  "getMovies_url (lit ''http://localhost:8000'') (\<lambda>s. s) (\<lambda>q. []) example_filters =
     lit ''http://localhost:8000/api/movies?search=Alien&sort=year&order=desc&limit=20&offset=0'' \<and>
   getMovies_url (lit ''http://localhost:8000'') (\<lambda>s. s) (\<lambda>q. []) MoviesPage_initial_filters =
     lit ''http://localhost:8000/api/movies?sort=name&order=asc&limit=20'' \<and>
   param_names (getMovies_params (\<lambda>q. []) example_filters) =
     [lit ''search'', lit ''sort'', lit ''order'', lit ''limit'', lit ''offset''] \<and>
   search example_filters \<noteq> None \<and> sort example_filters \<noteq> None \<and>
   order example_filters \<noteq> None \<and> limit example_filters \<noteq> None \<and>
   offset example_filters \<noteq> None"
proof -
  note c = getMovies_url_contract
      [of "lit ''http://localhost:8000''" "\<lambda>s. s" "\<lambda>q. []" example_filters]
  have z: "Number_toString (\<lambda>q. []) (num 20) = lit ''20''"
    "Number_toString (\<lambda>q. []) (num 0) = lit ''0''"
    by (simp_all add: Number_toString_def num_def digits.simps lit_def)
  have ps: "getMovies_params (\<lambda>q. []) example_filters =
      [(lit ''search'', lit ''Alien''), (lit ''sort'', lit ''year''), (lit ''order'', lit ''desc''),
       (lit ''limit'', lit ''20''), (lit ''offset'', lit ''0'')]"
    using c by (simp add: example_filters_def z) (simp add: lit_def)
  have u1: "getMovies_url (lit ''http://localhost:8000'') (\<lambda>s. s) (\<lambda>q. []) example_filters =
     lit ''http://localhost:8000/api/movies?search=Alien&sort=year&order=desc&limit=20&offset=0''"
    using c unfolding ps by (simp add: lit_def)
  have u2: "getMovies_url (lit ''http://localhost:8000'') (\<lambda>s. s) (\<lambda>q. []) MoviesPage_initial_filters =
     lit ''http://localhost:8000/api/movies?sort=name&order=asc&limit=20''"
    using c by (simp add: lit_def)
  have n: "param_names (getMovies_params (\<lambda>q. []) example_filters) =
     [lit ''search'', lit ''sort'', lit ''order'', lit ''limit'', lit ''offset'']"
    unfolding ps param_names_def by simp
  have present: "search example_filters \<noteq> None \<and> sort example_filters \<noteq> None \<and>
   order example_filters \<noteq> None \<and> limit example_filters \<noteq> None \<and>
   offset example_filters \<noteq> None"
    by (simp add: example_filters_def)
  show ?thesis using u1 u2 n present by simp
qed

section \<open>The error of a failed create or update\<close>

lemma throw_not_ok_cases:
  assumes "body response \<noteq> Some JNull"
  shows "throw_not_ok rt prefix response =
           Error (ToString rt (or_else (response_detail response)
                                 (JStr (prefix @ statusText response))))"
proof (cases "body response")
  case None
  then show ?thesis by (simp add: throw_not_ok_def response_detail_def)
next
  case (Some j)
  with assms show ?thesis
    by (cases j) (simp_all add: throw_not_ok_def response_detail_def)
qed

text \<open>
  C5, as the specification states it, asks that the error carries the detail field whenever
  the field is present. A detail that is the empty string is present and is not carried: the
  caller gets the generic message.
\<close>

theorem createMovie_empty_detail:
  "response_detail (bad_request (Some (JObj [(lit ''detail'', JStr [])]))) = Some (JStr []) \<and>
   createMovie (\<lambda>q. []) (bad_request (Some (JObj [(lit ''detail'', JStr [])])))
     = Inl (Error (lit ''Failed to create movie: Bad Request'')) \<and>
   createMovie (\<lambda>q. []) (bad_request (Some (JObj [(lit ''detail'', JStr [])])))
     \<noteq> Inl (Error [])"
  by (simp add: createMovie_def throw_not_ok_def response_detail_def bad_request_def or_else_def
      truthy_string_def lit_def)

text \<open>A body that is the JSON value \<^verbatim>\<open>null\<close> makes the property read itself throw.\<close>

lemma createMovie_null_body: "createMovie rt (bad_request (Some JNull)) = Inl TypeError"
  by (simp add: createMovie_def throw_not_ok_def bad_request_def)

text \<open>
  C5, amended. For a response that is not OK and whose body is not the JSON value null, the
  error thrown by createMovie and by updateMovie carries the detail field verbatim when the
  field is a non-empty string, and the generic message built from the status text when the
  body is not JSON, has no detail field, or has a falsy one.
\<close>

theorem not_ok_error_message:
  assumes "\<not> ok response" and "body response \<noteq> Some JNull"
  shows "(\<forall>s. response_detail response = Some (JStr s) \<and> s \<noteq> [] \<longrightarrow>
            createMovie rt response = Inl (Error s) \<and>
            updateMovie rt response = Inl (Error s)) \<and>
         ((response_detail response = None \<or>
           (\<exists>v. response_detail response = Some v \<and> \<not> truthy v)) \<longrightarrow>
            createMovie rt response
              = Inl (Error (lit ''Failed to create movie: '' @ statusText response)) \<and>
            updateMovie rt response
              = Inl (Error (lit ''Failed to update movie: '' @ statusText response)))"
  using assms
  by (auto simp: createMovie_def updateMovie_def throw_not_ok_cases or_else_def truthy_string_def)

theorem not_ok_error_message_witness:
  "\<not> ok (bad_request (Some (JObj [(lit ''detail'', JStr (lit ''Movie not found''))]))) \<and>
   updateMovie (\<lambda>q. []) (bad_request (Some (JObj [(lit ''detail'', JStr (lit ''Movie not found''))])))
     = Inl (Error (lit ''Movie not found'')) \<and>
   response_detail (bad_request None) = None \<and>
   createMovie (\<lambda>q. []) (bad_request None) = Inl (Error (lit ''Failed to create movie: Bad Request''))"
  using not_ok_error_message [of "bad_request (Some (JObj [(lit ''detail'', JStr (lit ''Movie not found''))]))" "\<lambda>q. []"]
    not_ok_error_message [of "bad_request None" "\<lambda>q. []"]
  by (simp add: bad_request_def response_detail_def lit_def)

section \<open>The cache of list results\<close>

lemma map_of_json_member:
  "map_of (json_member k w v) n = (if n = lit k then map_option w v else None)"
  by (simp add: json_member_def split: option.splits)

lemma filters_json_lookup:
  assumes "filters_json f = JObj ms"
  shows "map_of ms (lit ''limit'') = map_option num_json (limit f)"
    and "map_of ms (lit ''offset'') = map_option num_json (offset f)"
    and "map_of ms (lit ''order'') = map_option (\<lambda>d. JStr (order_str d)) (order f)"
    and "map_of ms (lit ''search'') = map_option JStr (search f)"
    and "map_of ms (lit ''sort'') = map_option (\<lambda>s. JStr (sort_str s)) (sort f)"
proof -
  have ne: "lit ''limit'' \<noteq> lit ''offset''" "lit ''limit'' \<noteq> lit ''order''"
    "lit ''limit'' \<noteq> lit ''search''" "lit ''limit'' \<noteq> lit ''sort''"
    "lit ''offset'' \<noteq> lit ''order''" "lit ''offset'' \<noteq> lit ''search''"
    "lit ''offset'' \<noteq> lit ''sort''" "lit ''order'' \<noteq> lit ''search''"
    "lit ''order'' \<noteq> lit ''sort''" "lit ''search'' \<noteq> lit ''sort''"
    by (simp_all add: lit_def)
  have ms: "ms = json_member ''limit'' num_json (limit f) @
           json_member ''offset'' num_json (offset f) @
           json_member ''order'' (\<lambda>d. JStr (order_str d)) (order f) @
           json_member ''search'' JStr (search f) @
           json_member ''sort'' (\<lambda>s. JStr (sort_str s)) (sort f)"
    using assms by (simp add: filters_json_def)
  show "map_of ms (lit ''limit'') = map_option num_json (limit f)"
    unfolding ms using ne by (simp add: map_add_def map_of_json_member split: option.splits)
  show "map_of ms (lit ''offset'') = map_option num_json (offset f)"
    unfolding ms using ne ne [symmetric]
    by (simp add: map_add_def map_of_json_member split: option.splits)
  show "map_of ms (lit ''order'') = map_option (\<lambda>d. JStr (order_str d)) (order f)"
    unfolding ms using ne ne [symmetric]
    by (simp add: map_add_def map_of_json_member split: option.splits)
  show "map_of ms (lit ''search'') = map_option JStr (search f)"
    unfolding ms using ne ne [symmetric]
    by (simp add: map_add_def map_of_json_member split: option.splits)
  show "map_of ms (lit ''sort'') = map_option (\<lambda>s. JStr (sort_str s)) (sort f)"
    unfolding ms using ne ne [symmetric]
    by (simp add: map_add_def map_of_json_member split: option.splits)
qed

lemma sort_str_inj: "sort_str a = sort_str b \<Longrightarrow> a = b"
  by (cases a; cases b) (simp_all add: lit_def)

lemma order_str_inj: "order_str a = order_str b \<Longrightarrow> a = b"
  by (cases a; cases b) (simp_all add: lit_def)

lemma num_json_inj:
  "finite_number a \<Longrightarrow> finite_number b \<Longrightarrow> map_option num_json a = map_option num_json b
     \<Longrightarrow> a = b"
  by (auto simp: finite_number_def num_json_def split: option.splits number.splits)

lemma filters_json_inj:
  assumes "finite_filters f" and "finite_filters g" and "filters_json f = filters_json g"
  shows "f = g"
proof -
  obtain ms where f: "filters_json f = JObj ms" by (simp add: filters_json_def)
  then have g: "filters_json g = JObj ms" using assms(3) by simp
  have "map_option num_json (limit f) = map_option num_json (limit g)"
    using filters_json_lookup(1) [OF f] filters_json_lookup(1) [OF g] by simp
  then have l: "limit f = limit g"
    using assms(1,2) by (intro num_json_inj) (simp_all add: finite_filters_def)
  have "map_option num_json (offset f) = map_option num_json (offset g)"
    using filters_json_lookup(2) [OF f] filters_json_lookup(2) [OF g] by simp
  then have ofs: "offset f = offset g"
    using assms(1,2) by (intro num_json_inj) (simp_all add: finite_filters_def)
  have "map_option (\<lambda>d. JStr (order_str d)) (order f) = map_option (\<lambda>d. JStr (order_str d)) (order g)"
    using filters_json_lookup(3) [OF f] filters_json_lookup(3) [OF g] by simp
  then have ord: "order f = order g"
    by (cases "order f"; cases "order g") (auto dest: order_str_inj)
  have "map_option JStr (search f) = map_option JStr (search g)"
    using filters_json_lookup(4) [OF f] filters_json_lookup(4) [OF g] by simp
  then have se: "search f = search g"
    by (cases "search f"; cases "search g") auto
  have "map_option (\<lambda>s. JStr (sort_str s)) (sort f) = map_option (\<lambda>s. JStr (sort_str s)) (sort g)"
    using filters_json_lookup(5) [OF f] filters_json_lookup(5) [OF g] by simp
  then have so: "sort f = sort g"
    by (cases "sort f"; cases "sort g") (auto dest: sort_str_inj)
  show ?thesis using l ofs ord se so by simp
qed

lemma useMovies_hash_inj:
  "finite_filters f \<Longrightarrow> finite_filters g \<Longrightarrow>
   hashKey (useMovies_queryKey f) = hashKey (useMovies_queryKey g) \<Longrightarrow> f = g"
  by (simp add: hashKey_def useMovies_queryKey_def filters_json_inj)

lemma invalidate_movies:
  assumes "invalidateQueries [PStr (lit ''movies'')] cache h = Some q"
    and "begins_with_movies (queryKey q)"
  shows "isInvalidated q"
proof -
  obtain q0 where q0: "cache h = Some q0"
    and q: "q = (if partialMatchKey (queryKey q0) [PStr (lit ''movies'')]
                 then q0\<lparr>isInvalidated := True\<rparr> else q0)"
    using assms(1) by (auto simp: invalidateQueries_def)
  have k: "queryKey q = queryKey q0" using q by simp
  have "partialMatchKey (queryKey q0) [PStr (lit ''movies'')]"
    using assms(2) unfolding k begins_with_movies_def
    by (auto split: list.splits key_part.splits)
  then show ?thesis using q by simp
qed

lemma invalidate_keeps:
  "invalidateQueries p cache h = Some q \<Longrightarrow>
   \<exists>q0. cache h = Some q0 \<and> queryKey q = queryKey q0 \<and> (isInvalidated q0 \<longrightarrow> isInvalidated q)"
  by (auto simp: invalidateQueries_def)


text \<open>
  C4, as the specification states it, asks that two distinct filter values always occupy
  distinct cache entries. Filters whose limit is NaN and filters whose limit is infinite are
  distinct values with one hash: both limits are written as null. The result fetched for
  the second replaces the result stored for the first.
\<close>

theorem useMovies_hash_collision:
  "nan_limit \<noteq> infinite_limit \<and>
   hashKey (useMovies_queryKey nan_limit) = hashKey (useMovies_queryKey infinite_limit) \<and>
   data (the (snd (useMovies infinite_limit [Inr (JStr (lit ''B''))]
                 (snd (useMovies nan_limit [Inr (JStr (lit ''A''))] Map.empty)))
              (hashKey (useMovies_queryKey nan_limit))))
     = Some (JStr (lit ''B''))"
  by (simp add: nan_limit_def infinite_limit_def no_filters_def hashKey_def
      useMovies_queryKey_def filters_json_def json_member_def num_json_def
      useMovies_def run_query_def query_retry_def queryClient_def fetch_success_def)

text \<open>
  C4, amended. Two distinct filter values whose limit and offset are finite where present
  have distinct hashes, and a fetch for one leaves the entry of the other as it is. After
  a create or an update mutation that resolves, every query of the cache whose key begins
  with \<^verbatim>\<open>"movies"\<close> is invalidated.
\<close>

theorem movies_cache_keys:
  "(finite_filters f \<and> finite_filters g \<and> f \<noteq> g \<longrightarrow>
      hashKey (useMovies_queryKey f) \<noteq> hashKey (useMovies_queryKey g) \<and>
      snd (useMovies f rs cache) (hashKey (useMovies_queryKey g))
        = cache (hashKey (useMovies_queryKey g))) \<and>
   (\<forall>movie n cache' h q.
      useCreateMovie rt responses cache = ((Resolved movie, n), cache') \<and>
      cache' h = Some q \<and> begins_with_movies (queryKey q) \<longrightarrow> isInvalidated q) \<and>
   (\<forall>movie n cache' h q.
      useUpdateMovie rt movieId responses cache = ((Resolved movie, n), cache') \<and>
      cache' h = Some q \<and> begins_with_movies (queryKey q) \<longrightarrow> isInvalidated q)"
proof -
  have keys: "hashKey (useMovies_queryKey f) \<noteq> hashKey (useMovies_queryKey g) \<and>
      snd (useMovies f rs cache) (hashKey (useMovies_queryKey g))
        = cache (hashKey (useMovies_queryKey g))"
    if "finite_filters f" and "finite_filters g" and "f \<noteq> g"
  proof -
    have ne: "hashKey (useMovies_queryKey f) \<noteq> hashKey (useMovies_queryKey g)"
      using that useMovies_hash_inj by blast
    then show ?thesis
      by (auto simp: useMovies_def run_query_def fetch_success_def
          split: prod.splits settled.splits option.splits)
  qed
  have create: "isInvalidated q"
    if "useCreateMovie rt responses cache = ((Resolved movie, n), cache')"
      and "cache' h = Some q" and "begins_with_movies (queryKey q)" for movie n cache' h q
  proof -
    have "cache' = useCreateMovie_onSuccess cache"
      using that(1) by (auto simp: useCreateMovie_def split: prod.splits settled.splits)
    then show ?thesis
      using that(2,3) invalidate_movies by (simp add: useCreateMovie_onSuccess_def)
  qed
  have update: "isInvalidated q"
    if run: "useUpdateMovie rt movieId responses cache = ((Resolved movie, n), cache')"
      and hq: "cache' h = Some q" and bm: "begins_with_movies (queryKey q)"
    for movie n cache' h q
  proof -
    have c: "cache' = useUpdateMovie_onSuccess movieId cache"
      using run by (auto simp: useUpdateMovie_def split: prod.splits settled.splits)
    obtain q0 where q0: "invalidateQueries [PStr (lit ''movies'')] cache h = Some q0"
      and k: "queryKey q = queryKey q0" and i: "isInvalidated q0 \<longrightarrow> isInvalidated q"
      using hq invalidate_keeps unfolding c useUpdateMovie_onSuccess_def by blast
    have "isInvalidated q0"
      using q0 bm k invalidate_movies by simp
    then show ?thesis using i by simp
  qed
  show ?thesis using keys create update by blast
qed


theorem movies_cache_keys_witness:
  "finite_filters MoviesPage_initial_filters \<and> finite_filters example_filters \<and>
   MoviesPage_initial_filters \<noteq> example_filters \<and>
   hashKey (useMovies_queryKey MoviesPage_initial_filters)
     \<noteq> hashKey (useMovies_queryKey example_filters) \<and>
   useCreateMovie (\<lambda>q. []) [created] listed
     = ((Resolved (JObj []), 1), useCreateMovie_onSuccess listed) \<and>
   useCreateMovie_onSuccess listed (hashKey (useMovies_queryKey MoviesPage_initial_filters))
     = Some \<lparr>queryKey = useMovies_queryKey MoviesPage_initial_filters, data = Some (JObj []),
             isInvalidated = True\<rparr> \<and>
   useUpdateMovie (\<lambda>q. []) (num 7) [created] listed
     = ((Resolved (JObj []), 1), useUpdateMovie_onSuccess (num 7) listed) \<and>
   useUpdateMovie_onSuccess (num 7) listed
       (hashKey (useMovies_queryKey MoviesPage_initial_filters))
     = Some \<lparr>queryKey = useMovies_queryKey MoviesPage_initial_filters, data = Some (JObj []),
             isInvalidated = True\<rparr> \<and>
   begins_with_movies (useMovies_queryKey MoviesPage_initial_filters)"
proof -
  have fin: "finite_filters MoviesPage_initial_filters \<and> finite_filters example_filters \<and>
      MoviesPage_initial_filters \<noteq> example_filters"
    by (simp add: finite_filters_def finite_number_def MoviesPage_initial_filters_def
        example_filters_def num_def)
  have run: "useCreateMovie (\<lambda>q. []) [created] listed
      = ((Resolved (JObj []), 1), useCreateMovie_onSuccess listed)"
    by (simp add: useCreateMovie_def mutation_retry_def queryClient_def createMovie_def
        created_def)
  have entry: "useCreateMovie_onSuccess listed
       (hashKey (useMovies_queryKey MoviesPage_initial_filters))
     = Some \<lparr>queryKey = useMovies_queryKey MoviesPage_initial_filters, data = Some (JObj []),
             isInvalidated = True\<rparr>"
    by (simp add: listed_def useMovies_def run_query_def query_retry_def queryClient_def
        fetch_success_def useCreateMovie_onSuccess_def invalidateQueries_def
        useMovies_queryKey_def)
  have run': "useUpdateMovie (\<lambda>q. []) (num 7) [created] listed
      = ((Resolved (JObj []), 1), useUpdateMovie_onSuccess (num 7) listed)"
    by (simp add: useUpdateMovie_def mutation_retry_def queryClient_def updateMovie_def
        created_def)
  have entry': "useUpdateMovie_onSuccess (num 7) listed
       (hashKey (useMovies_queryKey MoviesPage_initial_filters))
     = Some \<lparr>queryKey = useMovies_queryKey MoviesPage_initial_filters, data = Some (JObj []),
             isInvalidated = True\<rparr>"
    by (simp add: listed_def useMovies_def run_query_def query_retry_def queryClient_def
        fetch_success_def useUpdateMovie_onSuccess_def invalidateQueries_def
        useMovies_queryKey_def)
  have beg: "begins_with_movies (useMovies_queryKey MoviesPage_initial_filters)"
    by (simp add: begins_with_movies_def useMovies_queryKey_def)
  show ?thesis
    using movies_cache_keys [where f = MoviesPage_initial_filters and g = example_filters
        and cache = listed and responses = "[created]" and rt = "\<lambda>q. []"
        and movieId = "num 7"]
      fin run entry run' entry' beg
    by simp
qed

section \<open>Retries\<close>

lemma retryer_calls: "snd (retryer (RetryCount k) fc rs) \<le> Suc (k - fc)"
proof (induction rs arbitrary: fc)
  case Nil
  then show ?case by simp
next
  case (Cons r rs)
  show ?case
  proof (cases r)
    case (Inl e)
    have "snd (retryer (RetryCount k) (Suc fc) rs) \<le> Suc (k - Suc fc)"
      by (rule Cons.IH)
    then show ?thesis
      using Inl by (auto simp: shouldRetry_def split: prod.splits)
  next
    case (Inr v)
    then show ?thesis by simp
  qed
qed

lemma retryer_settles:
  "k - fc < length rs \<Longrightarrow> fst (retryer (RetryCount k) fc rs) \<noteq> Pending"
proof (induction rs arbitrary: fc)
  case Nil
  then show ?case by simp
next
  case (Cons r rs)
  show ?case
  proof (cases r)
    case (Inl e)
    show ?thesis
    proof (cases "fc < k")
      case True
      then have "k - Suc fc < length rs" using Cons.prems by simp
      then have "fst (retryer (RetryCount k) (Suc fc) rs) \<noteq> Pending" by (rule Cons.IH)
      then show ?thesis using Inl True
        by (cases "retryer (RetryCount k) (Suc fc) rs") (simp add: shouldRetry_def)
    next
      case False
      then show ?thesis using Inl by (simp add: shouldRetry_def)
    qed
  next
    case (Inr v)
    then show ?thesis by simp
  qed
qed

lemma run_query_calls: "snd (fst (run_query key rs cache)) \<le> 2"
proof -
  have "snd (retryer (RetryCount 1) 0 rs) \<le> 2"
    using retryer_calls [of 1 0 rs] by simp
  then show ?thesis
    by (auto simp: run_query_def query_retry_def queryClient_def
        split: prod.splits settled.splits)
qed

lemma run_query_settles: "2 \<le> length rs \<Longrightarrow> fst (fst (run_query key rs cache)) \<noteq> Pending"
proof -
  assume "2 \<le> length rs"
  then have "fst (retryer (RetryCount 1) 0 rs) \<noteq> Pending"
    by (intro retryer_settles) simp
  then show ?thesis
    by (auto simp: run_query_def query_retry_def queryClient_def
        split: prod.splits settled.splits)
qed

lemma mutation_once:
  "snd (retryer (mutation_retry queryClient None) 0 rs) \<le> 1 \<and>
   (rs \<noteq> [] \<longrightarrow> fst (retryer (mutation_retry queryClient None) 0 rs) \<noteq> Pending)"
proof (cases rs)
  case Nil
  then show ?thesis by simp
next
  case (Cons r rs')
  then show ?thesis
    by (cases r) (simp_all add: mutation_retry_def queryClient_def shouldRetry_def)
qed


text \<open>
  C6. A list or read query runs its function at most twice, that is, retries at most once,
  and a create or update mutation runs its function at most once, that is, never retries.
  Each settles as soon as that many results are in.
\<close>

theorem query_retry_budget:
  "snd (fst (useMovies filters rs cache)) \<le> 2 \<and>
   snd (fst (useMovie movieId rs cache)) \<le> 2 \<and>
   snd (fst (useGenres rs cache)) \<le> 2 \<and>
   snd (fst (useCreateMovie rt responses cache)) \<le> 1 \<and>
   snd (fst (useUpdateMovie rt movieId responses cache)) \<le> 1 \<and>
   (2 \<le> length rs \<longrightarrow> fst (fst (useMovies filters rs cache)) \<noteq> Pending) \<and>
   (responses \<noteq> [] \<longrightarrow> fst (fst (useCreateMovie rt responses cache)) \<noteq> Pending \<and>
                          fst (fst (useUpdateMovie rt movieId responses cache)) \<noteq> Pending)"
proof -
  have c: "snd (fst (useCreateMovie rt responses cache)) \<le> 1 \<and>
      (responses \<noteq> [] \<longrightarrow> fst (fst (useCreateMovie rt responses cache)) \<noteq> Pending)"
    using mutation_once [of "map (createMovie rt) responses"]
    by (auto simp: useCreateMovie_def split: prod.splits settled.splits)
  have u: "snd (fst (useUpdateMovie rt movieId responses cache)) \<le> 1 \<and>
      (responses \<noteq> [] \<longrightarrow> fst (fst (useUpdateMovie rt movieId responses cache)) \<noteq> Pending)"
    using mutation_once [of "map (updateMovie rt) responses"]
    by (auto simp: useUpdateMovie_def split: prod.splits settled.splits)
  show ?thesis
    using c u by (simp add: useMovies_def useMovie_def useGenres_def run_query_calls run_query_settles)
qed

theorem query_retry_budget_witness:
  "useMovies no_filters [Inl TypeError, Inr (JObj [])] Map.empty
     = ((Resolved (JObj []), 2),
        [hashKey (useMovies_queryKey no_filters) \<mapsto>
           \<lparr>queryKey = useMovies_queryKey no_filters, data = Some (JObj []),
            isInvalidated = False\<rparr>]) \<and>
   fst (useCreateMovie (\<lambda>q. []) [bad_request None, created] Map.empty)
     = (Rejected (Error (lit ''Failed to create movie: Bad Request'')), 1) \<and>
   fst (useUpdateMovie (\<lambda>q. []) (num 7) [bad_request None, created] Map.empty)
     = (Rejected (Error (lit ''Failed to update movie: Bad Request'')), 1)"
  using query_retry_budget
    [of no_filters "[Inl TypeError, Inr (JObj [])]" Map.empty "num 7" "\<lambda>q. []"
        "[bad_request None, created]"]
  by (simp add: useMovies_def run_query_def query_retry_def mutation_retry_def queryClient_def
      shouldRetry_def fetch_success_def useCreateMovie_def useUpdateMovie_def createMovie_def
      updateMovie_def throw_not_ok_def bad_request_def or_else_def lit_def)

section \<open>Highlighting keeps the text\<close>

lemma split_loop_concat:
  "p \<le> q \<Longrightarrow> q \<le> length S \<Longrightarrow>
     concat (split_loop canon pat S p q A) = concat A @ drop p S"
proof (induction canon pat S p q A rule: split_loop.induct)
  case (1 canon pat S p q A)
  show ?case
  proof (cases "q < length S")
    case False
    then show ?thesis
      using "1.prems" by (subst split_loop.simps) (simp add: substring_def)
  next
    case inside: True
    show ?thesis
    proof (cases "matches_at canon pat (drop q S)")
      case False
      then show ?thesis
        using inside "1.IH"(3) "1.prems"
        by (subst split_loop.simps) simp
    next
      case True
      define e where "e = min (q + length pat) (length S)"
      show ?thesis
      proof (cases "e = p")
        case True
        then show ?thesis
          using inside \<open>matches_at canon pat (drop q S)\<close> "1.IH"(1) [OF inside _ e_def] "1.prems"
          by (subst split_loop.simps) (simp add: e_def Let_def)
      next
        case False
        have qe: "q \<le> e" and eS: "e \<le> length S"
          using inside by (simp_all add: e_def)
        have "concat (split_loop canon pat S e e (A @ [substring S p q, substring S q e]))
              = concat (A @ [substring S p q, substring S q e]) @ drop e S"
          using "1.IH"(2) [OF inside \<open>matches_at canon pat (drop q S)\<close> e_def False] eS by simp
        also have "\<dots> = concat A @ (take (q - p) (drop p S) @ take (e - q) (drop q S) @ drop e S)"
          by (simp add: substring_def)
        also have "take (q - p) (drop p S) @ take (e - q) (drop q S) @ drop e S = drop p S"
        proof -
          have "take (e - q) (drop q S) @ drop e S = drop q S"
            using qe by (metis add_diff_cancel_left' append_take_drop_id drop_drop le_Suc_ex add.commute)
          moreover have "take (q - p) (drop p S) @ drop q S = drop p S"
            using "1.prems"(1) by (metis add_diff_cancel_left' append_take_drop_id drop_drop le_Suc_ex add.commute)
          ultimately show ?thesis by simp
        qed
        finally show ?thesis
          using inside \<open>matches_at canon pat (drop q S)\<close> False
          by (subst split_loop.simps) (simp add: e_def Let_def)
      qed
    qed
  qed
qed


lemma split_concat: "pat \<noteq> [] \<Longrightarrow> concat (split canon pat S) = S"
  by (simp add: split_def matches_at_def split_loop_concat)

lemma rendered_parts:
  "rendered (map (\<lambda>part. if P part then Mark part else Span part) parts) = concat parts"
  by (induction parts) (simp_all add: rendered_def)

text \<open>
  C8. For a highlight that is non-empty after trimming and has no syntax character of
  regular expressions, the component renders one mark or span per part of the split, and
  the parts, hence the rendered elements, concatenate to the text: highlighting changes
  the markup only. This holds whatever the case tables are.
\<close>

theorem HighlightText_content:
  assumes "trim h \<noteq> []" and "\<not> list_ex is_syntax_character h"
  shows "HighlightText canon toLowerCase text (Some h)
           = Some (map (\<lambda>part. if toLowerCase part = toLowerCase h then Mark part else Span part)
                       (split canon h text)) \<and>
         concat (split canon h text) = text \<and>
         (case HighlightText canon toLowerCase text (Some h) of
            Some elements \<Rightarrow> rendered elements = text
          | None \<Rightarrow> False)"
proof -
  have ne: "h \<noteq> []"
    using assms(1) by (auto simp: trim_def)
  have parts: "concat (split canon h text) = text"
    using ne by (rule split_concat)
  have el: "HighlightText canon toLowerCase text (Some h)
           = Some (map (\<lambda>part. if toLowerCase part = toLowerCase h then Mark part else Span part)
                       (split canon h text))"
    using assms ne by (simp add: HighlightText_def truthy_string_def RegExp_group_def)
  show ?thesis using parts el by (simp add: rendered_parts)
qed

theorem HighlightText_content_witness:
  "trim (lit ''test'') \<noteq> [] \<and> \<not> list_ex is_syntax_character (lit ''test'') \<and>
   HighlightText ascii_upper ascii_lower (lit ''Test Movie'') (Some (lit ''test''))
     = Some [Span [], Mark (lit ''Test''), Span (lit '' Movie'')] \<and>
   rendered [Span [], Mark (lit ''Test''), Span (lit '' Movie'')] = lit ''Test Movie''"
proof -
  have t: "trim (lit ''test'') \<noteq> []"
    by (simp add: trim_def lit_def is_whitespace_def)
  have m: "\<not> list_ex is_syntax_character (lit ''test'')"
    by (simp add: lit_def is_syntax_character_def)
  have s: "split ascii_upper (lit ''test'') (lit ''Test Movie'')
             = [[], lit ''Test'', lit '' Movie'']"
    by (simp add: split_def split_loop.simps matches_at_def ascii_upper_def lit_def
        substring_def)
  have l: "ascii_lower (lit ''Test'') = ascii_lower (lit ''test'')"
    "ascii_lower [] \<noteq> ascii_lower (lit ''test'')"
    "ascii_lower (lit '' Movie'') \<noteq> ascii_lower (lit ''test'')"
    by (simp_all add: ascii_lower_def lit_def)
  have r: "rendered [Span [], Mark (lit ''Test''), Span (lit '' Movie'')] = lit ''Test Movie''"
    by (simp add: rendered_def lit_def)
  show ?thesis
    using HighlightText_content [OF t m, of ascii_upper ascii_lower "lit ''Test Movie''"] t m r
    by (simp add: s l)
qed

section \<open>One emission per pause in typing\<close>

lemma changes_tail:
  assumes "rapid ((t, v) # es)" and "differing v es"
    and "search_state st = v" and "timer st = Some (t + debounce_delay, v)"
  shows "emitted (changes st es) = emitted st \<and>
         search_state (changes st es) = snd (last ((t, v) # es)) \<and>
         timer (changes st es)
           = Some (fst (last ((t, v) # es)) + debounce_delay, snd (last ((t, v) # es)))"
  using assms
proof (induction es arbitrary: t v st)
  case Nil
  then show ?case by (simp add: changes_def)
next
  case (Cons e es)
  obtain t' v' where e: "e = (t', v')" by (cases e)
  let ?st = "change st e"
  have step: "emitted ?st = emitted st" "search_state ?st = v'"
    "timer ?st = Some (t' + debounce_delay, v')"
    using Cons.prems by (simp_all add: e change_def fire_due_def Let_def)
  have "emitted (changes ?st es) = emitted ?st \<and>
         search_state (changes ?st es) = snd (last ((t', v') # es)) \<and>
         timer (changes ?st es)
           = Some (fst (last ((t', v') # es)) + debounce_delay, snd (last ((t', v') # es)))"
    using Cons.prems step by (intro Cons.IH) (simp_all add: e)
  then show ?case using step by (simp add: changes_def e)
qed

text \<open>
  C7. Over a sequence of changes of the search input, each less than 300 ms after the one
  before and each to a new value, \<^verbatim>\<open>onSearchChange\<close> is not called between the first
  change and the last, and in the pause that follows it is called once: by the timer due
  300 ms after the last change, with the last value. (What was emitted before is what a
  timer due by the first change had emitted.)
\<close>

theorem debounced_search_once:
  assumes "evs \<noteq> []" and "rapid evs" and "differing (search_state st) evs"
  shows "emitted (changes st evs) = emitted (fire_due (fst (hd evs)) st) \<and>
         emitted (pause (changes st evs))
           = emitted (fire_due (fst (hd evs)) st)
             @ [(fst (last evs) + debounce_delay, snd (last evs))]"
proof -
  obtain t v es where evs: "evs = (t, v) # es"
    using assms(1) by (cases evs) auto
  let ?st = "change st (t, v)"
  have first: "emitted ?st = emitted (fire_due t st)" "search_state ?st = v"
    "timer ?st = Some (t + debounce_delay, v)"
    using assms(3) by (auto simp: evs change_def fire_due_def Let_def split: option.splits)
  have rest: "emitted (changes ?st es) = emitted ?st \<and>
         search_state (changes ?st es) = snd (last ((t, v) # es)) \<and>
         timer (changes ?st es)
           = Some (fst (last ((t, v) # es)) + debounce_delay, snd (last ((t, v) # es)))"
    using assms(2,3) first by (intro changes_tail) (simp_all add: evs)
  have all: "changes st evs = changes ?st es"
    by (simp add: changes_def evs)
  show ?thesis
    using rest first unfolding all by (simp add: pause_def evs)
qed

theorem debounced_search_once_witness:
  "typing \<noteq> [] \<and> rapid typing \<and> differing (search_state (mount 0)) typing \<and>
   emitted (changes (mount 0) typing) = [(300, [])] \<and>
   emitted (pause (changes (mount 0) typing)) = [(300, []), (1900, lit ''alien'')]"
  using debounced_search_once [of typing "mount 0"]
  by (simp add: typing_def mount_def debounce_delay_def fire_due_def lit_def)

section \<open>The selected actors stay free of duplicates\<close>

lemma keys_addActor:
  "distinct (actor_keys st) \<Longrightarrow> distinct (actor_keys (addActor p st))"
  by (auto simp: actor_keys_def addActor_def Let_def list_ex_iff same_person_def)

lemma keys_removeActor:
  "distinct (actor_keys st) \<Longrightarrow> distinct (actor_keys (removeActor p st))"
  by (simp add: actor_keys_def removeActor_def Let_def distinct_map_filter)

lemma keys_actor_calls:
  "distinct (actor_keys st) \<Longrightarrow> distinct (actor_keys (actor_calls cs st))"
  unfolding actor_calls_def
proof (induction cs arbitrary: st)
  case Nil
  then show ?case by simp
next
  case (Cons c cs)
  have "distinct (actor_keys (actor_step st c))"
    using Cons.prems by (cases c) (simp_all add: keys_addActor keys_removeActor)
  then show ?case using Cons.IH by simp
qed

lemma addActor_present:
  "(firstName p, lastName p) \<in> set (actor_keys st)
     \<Longrightarrow> selectedActors (addActor p st) = selectedActors st"
  by (auto simp: actor_keys_def addActor_def Let_def list_ex_iff same_person_def)

text \<open>
  C9. Starting from a list with at most one entry per pair of first and last name, every
  sequence of calls of addActor and removeActor ends in such a list, and addActor of a pair
  that is present leaves the list as it is.
\<close>

theorem selectedActors_one_per_pair:
  "distinct (actor_keys st) \<Longrightarrow>
     distinct (actor_keys (actor_calls cs st)) \<and>
     ((firstName p, lastName p) \<in> set (actor_keys st) \<longrightarrow>
        selectedActors (addActor p st) = selectedActors st)"
  by (simp add: keys_actor_calls addActor_present)

theorem selectedActors_one_per_pair_witness:
  "distinct (actor_keys one_actor) \<and>
   (firstName john, lastName john) \<in> set (actor_keys one_actor) \<and>
   selectedActors (addActor john one_actor) = [john] \<and>
   selectedActors
     (actor_calls [AddActor jane, AddActor john, RemoveActor john, AddActor jane] one_actor)
     = [jane] \<and>
   distinct (actor_keys
     (actor_calls [AddActor jane, AddActor john, RemoveActor john, AddActor jane] one_actor))"
  using selectedActors_one_per_pair
    [of one_actor "[AddActor jane, AddActor john, RemoveActor john, AddActor jane]" john]
  by (simp add: actor_keys_def actor_calls_def addActor_def removeActor_def same_person_def
      one_actor_def john_def jane_def lit_def Let_def)

section \<open>The star rating is total on ratings from 0 to 5\<close>

lemma concat_replicate_single: "concat (replicate n [c]) = replicate n c"
  by (induction n) simp_all

text \<open>
  C10. For an integer rating from 0 to 5 neither call of repeat throws: the card shows
  \<open>rating\<close> filled stars followed by \<open>5 - rating\<close> unfilled ones, five glyphs in all.
\<close>

theorem MovieCard_stars_five:
  assumes "0 \<le> r" and "r \<le> 5"
  shows "MovieCard_stars (num r) =
           Inr (replicate (nat r) 0x2605, replicate (nat (5 - r)) 0x2605) \<and>
         length (replicate (nat r) (0x2605 :: code_unit) @ replicate (nat (5 - r)) 0x2605) = 5"
  using assms
  by (simp add: MovieCard_stars_def num_def star_def concat_replicate_single
      flip: of_int_diff)

theorem MovieCard_stars_five_witness:
  "(0::int) \<le> 4 \<and> (4::int) \<le> 5 \<and>
   MovieCard_stars (num 4) = Inr ([0x2605, 0x2605, 0x2605, 0x2605], [0x2605])"
  using MovieCard_stars_five [of 4] by (simp add: numeral_eq_Suc)

end
